theory Spec2Isabelle
  imports Complex_Main
begin

section \<open>The input tree and the catalog\<close>

text \<open>
  The generator reads one Go file as a \<open>dst\<close> tree. Of a type expression the generator
  only asks whether it is an identifier (\<open>x.(*dst.Ident)\<close>) or an inline struct type
  (\<open>*dst.StructType\<close>, in \<open>isStruct\<close>); every other expression (pointer, slice, map,
  selector, ...) is \<open>OtherExpr\<close>.
\<close>

datatype expr = Ident string | StructType | OtherExpr

text \<open>A \<open>*dst.Ident\<close> is its name; \<open>None\<close> is the nil pointer.\<close>

type_synonym ident_ptr = "string option"

record dst_field =
  Names :: "ident_ptr list"
  Type :: expr

text \<open>The token of a general declaration; \<open>token.TYPE\<close> is written \<open>TYPEDECL\<close>.\<close>

datatype token = IMPORT | TYPEDECL | CONST | VAR

datatype spec = ImportSpec string | TypeSpec string expr | ValueSpec

text \<open>
  A function declaration carries its name, the parameter and result field lists of its
  type (\<open>None\<close> is a nil \<open>*dst.FieldList\<close>), and the general declarations that stand
  inside its body, each with its token and its specs, in the order in which \<open>dst.Inspect\<close>
  visits them. Nothing else of the receiver and the body is read by the functions
  modelled here.
\<close>

datatype decl =
    FuncDecl string "dst_field list option" "dst_field list option" "(token \<times> spec list) list"
  | GenDecl token "spec list"

record dst_file =
  Name :: string
  Decls :: "decl list"

record ParamReflectInfo =
  DstField :: dst_field
  IsStruct :: bool

record FuncInfo =
  OriginalIdentifier :: string
  Params :: "ParamReflectInfo list"
  Results :: "ParamReflectInfo list"

text \<open>
  \<open>fn.Name.IsExported()\<close>: the first rune of the name is an upper-case letter. For an
  ASCII first byte that is \<open>A\<close>..\<open>Z\<close>; for any other first rune the answer comes from
  the Unicode tables of the Go library, taken here as the parameter \<open>isUpperRune\<close>
  (applied to the name).
\<close>

definition IsExported :: "(string \<Rightarrow> bool) \<Rightarrow> string \<Rightarrow> bool" where
  "IsExported isUpperRune name =
     (case name of
        [] \<Rightarrow> False
      | c # cs \<Rightarrow>
          if (of_char c :: nat) < 128 then 65 \<le> (of_char c :: nat) \<and> (of_char c :: nat) \<le> 90
          else isUpperRune name)"

text \<open>\<open>isStruct(typeMap, expr)\<close>; the type map sends a declared type name to its type expression.\<close>

fun isStruct :: "(string \<rightharpoonup> expr) \<Rightarrow> expr \<Rightarrow> bool" where
  "isStruct typeMap StructType = True"
| "isStruct typeMap (Ident n) =
     (case typeMap n of Some StructType \<Rightarrow> True | _ \<Rightarrow> False)"
| "isStruct typeMap OtherExpr = False"

text \<open>
  \<open>extractTypeMap(node)\<close>. \<open>dst.Inspect\<close> visits the general declarations of the file in
  source order, those inside the bodies of functions too; every type spec sets
  \<open>typeMap[ts.Name.Name] = ts.Type\<close>, a later one replacing an earlier one of that name.
\<close>

fun addSpecs :: "spec list \<Rightarrow> (string \<rightharpoonup> expr) \<Rightarrow> (string \<rightharpoonup> expr)" where
  "addSpecs [] typeMap = typeMap"
| "addSpecs (TypeSpec name t # specs) typeMap = addSpecs specs (typeMap(name \<mapsto> t))"
| "addSpecs (ImportSpec path # specs) typeMap = addSpecs specs typeMap"
| "addSpecs (ValueSpec # specs) typeMap = addSpecs specs typeMap"

fun addGenDecls :: "(token \<times> spec list) list \<Rightarrow> (string \<rightharpoonup> expr) \<Rightarrow> (string \<rightharpoonup> expr)" where
  "addGenDecls [] typeMap = typeMap"
| "addGenDecls ((t, specs) # rest) typeMap = addGenDecls rest (addSpecs specs typeMap)"

fun addDecls :: "decl list \<Rightarrow> (string \<rightharpoonup> expr) \<Rightarrow> (string \<rightharpoonup> expr)" where
  "addDecls [] typeMap = typeMap"
| "addDecls (GenDecl t specs # ds) typeMap = addDecls ds (addSpecs specs typeMap)"
| "addDecls (FuncDecl name ps rs body # ds) typeMap = addDecls ds (addGenDecls body typeMap)"

definition extractTypeMap :: "dst_file \<Rightarrow> (string \<rightharpoonup> expr)" where
  "extractTypeMap node = addDecls (Decls node) Map.empty"

text \<open>
  The parameter loop of \<open>extractFuncInfo\<close>: for each field, for each of its names, one
  \<open>ParamReflectInfo\<close> holding that single name and the field's type.
\<close>

definition paramInfos :: "(string \<rightharpoonup> expr) \<Rightarrow> dst_field list \<Rightarrow> ParamReflectInfo list" where
  "paramInfos typeMap fl =
     concat (map (\<lambda>param.
       map (\<lambda>name. \<lparr>DstField = \<lparr>Names = [name], Type = Type param\<rparr>,
                     IsStruct = isStruct typeMap (Type param)\<rparr>)
           (Names param)) fl)"

text \<open>
  The result loop of \<open>extractFuncInfo\<close>: for each field one \<open>ParamReflectInfo\<close>, whose
  single name is \<open>result.Names[0]\<close> when the field has names and nil otherwise.
\<close>

definition resultInfos :: "(string \<rightharpoonup> expr) \<Rightarrow> dst_field list \<Rightarrow> ParamReflectInfo list" where
  "resultInfos typeMap fl =
     map (\<lambda>result.
       \<lparr>DstField = \<lparr>Names = [case Names result of [] \<Rightarrow> None | resultName # _ \<Rightarrow> resultName],
                    Type = Type result\<rparr>,
        IsStruct = isStruct typeMap (Type result)\<rparr>) fl"

definition funcInfoOf ::
  "(string \<rightharpoonup> expr) \<Rightarrow> string \<Rightarrow> dst_field list option \<Rightarrow> dst_field list option \<Rightarrow> FuncInfo" where
  "funcInfoOf typeMap name ps rs =
     \<lparr>OriginalIdentifier = name,
      Params = (case ps of None \<Rightarrow> [] | Some fl \<Rightarrow> paramInfos typeMap fl),
      Results = (case rs of None \<Rightarrow> [] | Some fl \<Rightarrow> resultInfos typeMap fl)\<rparr>"

text \<open>
  \<open>extractFuncInfo(node, typeMap)\<close>. \<open>dst.Inspect\<close> visits the declarations of the file
  in order, and a \<open>*dst.FuncDecl\<close> occurs only among them. The type map is an argument,
  as in the source, where it is the result of \<open>extractTypeMap\<close>.
\<close>

fun extractFuncInfo :: "(string \<Rightarrow> bool) \<Rightarrow> decl list \<Rightarrow> (string \<rightharpoonup> expr) \<Rightarrow> FuncInfo list" where
  "extractFuncInfo up [] typeMap = []"
| "extractFuncInfo up (FuncDecl name ps rs body # ds) typeMap =
     (if IsExported up name then funcInfoOf typeMap name ps rs # extractFuncInfo up ds typeMap
      else extractFuncInfo up ds typeMap)"
| "extractFuncInfo up (GenDecl t specs # ds) typeMap = extractFuncInfo up ds typeMap"

section \<open>Formatting: \<open>fmt.Sprint\<close> and \<open>fmt.Sprintf\<close>\<close>

definition digit :: "nat \<Rightarrow> char" where
  "digit d = ''0123456789'' ! d"

fun showNat :: "nat \<Rightarrow> string" where
  "showNat n = (if n < 10 then [digit n] else showNat (n div 10) @ [digit (n mod 10)])"

declare showNat.simps [simp del]

definition showInt :: "int \<Rightarrow> string" where
  "showInt i = (if i < 0 then CHR ''-'' # showNat (nat (- i)) else showNat (nat i))"

text \<open>
  An operand of \<open>Sprintf\<close>: a Go string, a Go int, or any other value, given by the name of
  its type and by how the \<open>fmt\<close> package prints it under a verb (the flag \<open>+\<close> and the
  verb character).
\<close>

datatype fmtarg = AString string | AInt int | AOperand string "bool \<Rightarrow> char \<Rightarrow> string"

definition badVerb :: "char \<Rightarrow> string \<Rightarrow> string \<Rightarrow> string" where
  "badVerb c ty s = ''%!'' @ [c] @ ''('' @ ty @ ''='' @ s @ '')''"

fun fmtOperand :: "bool \<Rightarrow> char \<Rightarrow> fmtarg \<Rightarrow> string" where
  "fmtOperand flag c (AString s) =
     (if c = CHR ''s'' \<or> c = CHR ''v'' then s else badVerb c ''string'' s)"
| "fmtOperand flag c (AInt i) =
     (if c = CHR ''d'' \<or> c = CHR ''v'' then (if flag \<and> 0 \<le> i \<and> c = CHR ''d'' then CHR ''+'' # showInt i else showInt i)
      else badVerb c ''int'' (showInt i))"
| "fmtOperand flag c (AOperand ty r) = r flag c"

fun fmtExtraArg :: "fmtarg \<Rightarrow> string" where
  "fmtExtraArg (AString s) = ''string='' @ s"
| "fmtExtraArg (AInt i) = ''int='' @ showInt i"
| "fmtExtraArg (AOperand ty r) = ty @ ''='' @ r False (CHR ''v'')"

fun joinWith :: "string \<Rightarrow> string list \<Rightarrow> string" where
  "joinWith sep [] = []"
| "joinWith sep [x] = x"
| "joinWith sep (x # y # ys) = x @ sep @ joinWith sep (y # ys)"

definition fmtExtra :: "fmtarg list \<Rightarrow> string" where
  "fmtExtra as = (if as = [] then [] else ''%!(EXTRA '' @ joinWith '', '' (map fmtExtraArg as) @ '')'')"

datatype scan = Literal | Percent | PercentPlus

text \<open>
  \<open>fmt.Sprintf\<close>, for the formats this program uses: literal text, \<open>%%\<close>, and the verbs
  \<open>%s\<close>, \<open>%d\<close>, \<open>%v\<close> and \<open>%+v\<close>, each consuming the next operand. A verb with no
  operand left prints \<open>%!v(MISSING)\<close>, operands left over are reported at the end. The
  other verbs and flags of the \<open>fmt\<close> package occur in no format of this program; on a
  string or an int the model prints them as a bad verb.
\<close>

fun scanFormat :: "scan \<Rightarrow> string \<Rightarrow> fmtarg list \<Rightarrow> string" where
  "scanFormat Literal [] as = fmtExtra as"
| "scanFormat Literal (c # cs) as =
     (if c = CHR ''%'' then scanFormat Percent cs as else c # scanFormat Literal cs as)"
| "scanFormat Percent [] as = ''%!(NOVERB)'' @ fmtExtra as"
| "scanFormat Percent (c # cs) as =
     (if c = CHR ''%'' then CHR ''%'' # scanFormat Literal cs as
      else if c = CHR ''+'' then scanFormat PercentPlus cs as
      else (case as of
              [] \<Rightarrow> ''%!'' @ [c] @ ''(MISSING)'' @ scanFormat Literal cs []
            | a # as' \<Rightarrow> fmtOperand False c a @ scanFormat Literal cs as'))"
| "scanFormat PercentPlus [] as = ''%!(NOVERB)'' @ fmtExtra as"
| "scanFormat PercentPlus (c # cs) as =
     (case as of
        [] \<Rightarrow> ''%!'' @ [c] @ ''(MISSING)'' @ scanFormat Literal cs []
      | a # as' \<Rightarrow> fmtOperand True c a @ scanFormat Literal cs as')"

definition Sprintf :: "string \<Rightarrow> fmtarg list \<Rightarrow> string" where
  "Sprintf format as = scanFormat Literal format as"

text \<open>\<open>strings.Repeat(s, count)\<close> for a count that is not negative.\<close>

fun Repeat :: "string \<Rightarrow> nat \<Rightarrow> string" where
  "Repeat s 0 = []"
| "Repeat s (Suc n) = s @ Repeat s n"

definition modifiedFunctionFormat :: string where
  "modifiedFunctionFormat = ''agrows_%s''"

definition wrapperFunctionFormat :: string where
  "wrapperFunctionFormat = ''%sWrapper''"

section \<open>Panics of the generator\<close>

text \<open>
  The generator reads types with the unchecked assertion \<open>x.(*dst.Ident)\<close> and names with
  \<open>Names[0].Name\<close>; each can panic, which ends the run with no output.
\<close>

datatype panic = InterfaceConversion | IndexOutOfRange | NilPointerDereference

definition bindP :: "panic + 'a \<Rightarrow> ('a \<Rightarrow> panic + 'b) \<Rightarrow> panic + 'b" where
  "bindP m f = (case m of Inl e \<Rightarrow> Inl e | Inr x \<Rightarrow> f x)"

fun mapP :: "('a \<Rightarrow> panic + 'b) \<Rightarrow> 'a list \<Rightarrow> panic + 'b list" where
  "mapP f [] = Inr []"
| "mapP f (x # xs) = bindP (f x) (\<lambda>y. bindP (mapP f xs) (\<lambda>ys. Inr (y # ys)))"

definition identName :: "expr \<Rightarrow> panic + string" where
  "identName e = (case e of Ident n \<Rightarrow> Inr n | _ \<Rightarrow> Inl InterfaceConversion)"

definition firstName :: "dst_field \<Rightarrow> panic + string" where
  "firstName f =
     (case Names f of
        [] \<Rightarrow> Inl IndexOutOfRange
      | None # _ \<Rightarrow> Inl NilPointerDereference
      | Some n # _ \<Rightarrow> Inr n)"

section \<open>The generated server dispatcher, as the generator emits it\<close>

text \<open>
  The body of a switch case of \<open>AgrowsReceive\<close> is a sequence of statements, each of one
  of the shapes that \<open>generateServerReceiver\<close> emits:
  \<^item> \<open>VarDefs\<close>: the block \<open>var ( ... )\<close>;
  \<^item> \<open>AssignValueOfArg pv a\<close>: \<open>pv = reflect.ValueOf(a.Value)\<close>;
  \<^item> \<open>AssignElemOf v p\<close>: \<open>v = reflect.ValueOf(&p).Elem()\<close>;
  \<^item> \<open>ForFields v pv\<close>: the loop over \<open>v.NumField()\<close> that sets each settable field of
    \<open>v\<close> to \<open>pv.FieldByName(key)\<close>;
  \<^item> \<open>IfArgMissing a name\<close>: \<open>if a, ok = args["name"]; !ok { return "", errors.New(...) }\<close>;
  \<^item> \<open>IfCastFails p a T\<close>: \<open>if p, ok = a.Value.(T); !ok { return "", errors.New(...) }\<close>;
  \<^item> \<open>Call f ps\<close>: \<open>f(ps...)\<close>; \<open>ReturnEmptyNil\<close>: \<open>return "", nil\<close>;
  \<^item> \<open>DefineCall xs f ps\<close>: \<open>xs... := f(ps...)\<close>;
  \<^item> \<open>IfErrNotNil e\<close>: \<open>if e != nil { return "", e }\<close>;
  \<^item> \<open>ReturnId s\<close>: \<open>return s, nil\<close>;
  \<^item> \<open>ReturnSprintf format xs\<close>: \<open>return fmt.Sprintf(format, xs...), nil\<close>.
\<close>

datatype vartype = TyNamed string | TyArgument | TyReflectValue | TyBool

datatype stmt =
    VarDefs "(string \<times> vartype) list"
  | AssignValueOfArg string string
  | AssignElemOf string string
  | ForFields string string
  | IfArgMissing string string
  | IfCastFails string string string
  | Call string "string list"
  | ReturnEmptyNil
  | DefineCall "string list" string "string list"
  | IfErrNotNil string
  | ReturnId string
  | ReturnSprintf string "string list"

record switch_case =
  caseKey :: string
  caseBody :: "stmt list"

text \<open>The variables one parameter contributes to the \<open>var\<close> block.\<close>

definition paramDefs :: "ParamReflectInfo \<Rightarrow> panic + (string \<times> vartype) list" where
  "paramDefs paramInfo =
     bindP (firstName (DstField paramInfo)) (\<lambda>originalParamName.
     bindP (identName (Type (DstField paramInfo))) (\<lambda>paramType.
       let paramName = originalParamName @ ''Param'';
           paramNameArg = paramName @ ''Arg''
       in Inr ([(paramName, TyNamed paramType), (paramNameArg, TyArgument)] @
               (if IsStruct paramInfo
                then [(paramName @ ''Value'', TyReflectValue), (originalParamName @ ''Value'', TyReflectValue)]
                else []))))"

text \<open>The statements that decode one parameter.\<close>

definition paramStmts :: "ParamReflectInfo \<Rightarrow> panic + stmt list" where
  "paramStmts paramInfo =
     bindP (firstName (DstField paramInfo)) (\<lambda>originalParamName.
     bindP (identName (Type (DstField paramInfo))) (\<lambda>paramType.
       let paramName = originalParamName @ ''Param'';
           paramNameArg = paramName @ ''Arg'';
           paramNameValue = paramName @ ''Value'';
           paramValue = originalParamName @ ''Value''
       in if IsStruct paramInfo
          then Inr [AssignValueOfArg paramNameValue paramNameArg,
                    AssignElemOf paramValue paramName,
                    ForFields paramValue paramNameValue]
          else Inr [IfArgMissing paramNameArg originalParamName,
                    IfCastFails paramName paramNameArg paramType]))"

text \<open>The arguments of the call of the renamed implementation.\<close>

definition callArgs :: "FuncInfo \<Rightarrow> panic + string list" where
  "callArgs fnInfo =
     mapP (\<lambda>paramInfo. bindP (firstName (DstField paramInfo)) (\<lambda>n. Inr (n @ ''Param''))) (Params fnInfo)"

text \<open>
  The loop that names the result variables. The state is \<open>firstReturnedError\<close>,
  \<open>firstReturnedString\<close> and the names given so far; \<open>i\<close> is the index of the next result.
\<close>

fun nameResults ::
  "nat \<Rightarrow> ParamReflectInfo list \<Rightarrow> string \<times> string \<times> string list \<Rightarrow> panic + (string \<times> string \<times> string list)" where
  "nameResults i [] st = Inr st"
| "nameResults i (r # rs) (firstReturnedError, firstReturnedString, varNames) =
     bindP (identName (Type (DstField r))) (\<lambda>t.
       if t = ''error''
       then nameResults (Suc i) rs
              (''err'' @ showNat i, firstReturnedString, varNames @ [''err'' @ showNat i])
       else if t = ''string''
       then nameResults (Suc i) rs
              (firstReturnedError, ''str'' @ showNat i, varNames @ [''str'' @ showNat i])
       else nameResults (Suc i) rs
              (firstReturnedError, firstReturnedString, varNames @ [''ret'' @ showNat i]))"

text \<open>The call of the implementation and the formatting of its reply.\<close>

definition replyStmts :: "FuncInfo \<Rightarrow> panic + stmt list" where
  "replyStmts fnInfo =
     (let modifiedFunctionName = Sprintf modifiedFunctionFormat [AString (OriginalIdentifier fnInfo)]
      in if length (Results fnInfo) = 0
         then bindP (callArgs fnInfo) (\<lambda>ps. Inr [Call modifiedFunctionName ps, ReturnEmptyNil])
         else bindP (nameResults 0 (Results fnInfo) ([], [], [])) (\<lambda>(firstReturnedError, firstReturnedString, varNames).
              bindP (callArgs fnInfo) (\<lambda>ps.
                Inr ([DefineCall varNames modifiedFunctionName ps] @
                     (if firstReturnedError \<noteq> [] then [IfErrNotNil firstReturnedError] else []) @
                     [if firstReturnedString \<noteq> []
                      then ReturnId firstReturnedString
                      else ReturnSprintf
                             (Sprintf (CHR 0x27 # ''%%+v'' @ CHR 0x27 # ''%s'')
                                [AString (Repeat ('', '' @ CHR 0x27 # ''%+v'' @ [CHR 0x27]) (length varNames - 1))])
                             varNames]))))"

definition caseBodyOf :: "FuncInfo \<Rightarrow> panic + stmt list" where
  "caseBodyOf fnInfo =
     bindP (if length (Params fnInfo) \<noteq> 0
            then bindP (mapP paramDefs (Params fnInfo)) (\<lambda>ds. Inr [VarDefs (concat ds @ [(''ok'', TyBool)])])
            else Inr []) (\<lambda>defs.
     bindP (mapP paramStmts (Params fnInfo)) (\<lambda>ps.
     bindP (replyStmts fnInfo) (\<lambda>reply.
       Inr (defs @ concat ps @ reply))))"

text \<open>
  \<open>generateServerReceiver(infos)\<close>: one case per catalog entry, in order, keyed by the literal
  \<open>jen.Lit(fnInfo.OriginalIdentifier.Name)\<close>. The statements around the switch (the call of
  \<open>DecodeFunctionCall\<close>, the check of its error and the \<open>default\<close> clause) do not depend on
  the catalog; they are in \<open>AgrowsReceive\<close> below.
\<close>

definition generateServerReceiver :: "FuncInfo list \<Rightarrow> panic + switch_case list" where
  "generateServerReceiver infos =
     mapP (\<lambda>fnInfo. bindP (caseBodyOf fnInfo) (\<lambda>body.
             Inr \<lparr>caseKey = OriginalIdentifier fnInfo, caseBody = body\<rparr>)) infos"

section \<open>Values of the generated programs\<close>

text \<open>The kinds of \<open>reflect.Kind\<close>.\<close>

datatype kind =
    KInvalid | KBool
  | KInt | KInt8 | KInt16 | KInt32 | KInt64
  | KUint | KUint8 | KUint16 | KUint32 | KUint64 | KUintptr
  | KFloat32 | KFloat64 | KComplex64 | KComplex128
  | KArray | KChan | KFunc | KInterface | KMap | KPointer | KSlice | KString | KStruct
  | KUnsafePointer

text \<open>A Go type: its name and its kind. Two types are identical when both agree.\<close>

datatype gotype = GoType string kind

fun kindOf :: "gotype \<Rightarrow> kind" where
  "kindOf (GoType n k) = k"

fun typeName :: "gotype \<Rightarrow> string" where
  "typeName (GoType n k) = n"

text \<open>
  A JavaScript number is a float64: a finite value, which is a rational number, or NaN or
  an infinity. The model admits every rational, of which the finite float64 values are a
  part.
\<close>

datatype jsnumber = Num rat | NaN | PosInf | NegInf

text \<open>
  A value of the host bridge (\<open>js.Value\<close>). An object is the list of its own enumerable
  keys with their values; \<open>JSError msg\<close> is the object that \<open>Error.New(msg)\<close> creates,
  which has no enumerable key.
\<close>

datatype jsvalue =
    JSUndefined | JSNull | JSBoolean bool | JSNumber jsnumber | JSString string | JSSymbol
  | JSObject "(string \<times> jsvalue) list" | JSFunction nat | JSError string

datatype jstype =
    TypeUndefined | TypeNull | TypeBoolean | TypeNumber | TypeString | TypeSymbol
  | TypeObject | TypeFunction

fun jsTypeOf :: "jsvalue \<Rightarrow> jstype" where
  "jsTypeOf JSUndefined = TypeUndefined"
| "jsTypeOf JSNull = TypeNull"
| "jsTypeOf (JSBoolean b) = TypeBoolean"
| "jsTypeOf (JSNumber x) = TypeNumber"
| "jsTypeOf (JSString s) = TypeString"
| "jsTypeOf JSSymbol = TypeSymbol"
| "jsTypeOf (JSObject kvs) = TypeObject"
| "jsTypeOf (JSFunction f) = TypeFunction"
| "jsTypeOf (JSError msg) = TypeObject"

text \<open>
  A Go value held in an interface (\<open>any\<close>): nil, or a dynamic type with a payload. Integers
  of every width carry their mathematical value; a struct carries its fields in order.
\<close>

datatype payload =
    PBool bool | PInt int | PFloat jsnumber | PString string | PError string | PJS jsvalue
  | PStruct "(string \<times> val) list" | POther nat
and val = VNil | V gotype payload

definition goInt :: gotype where "goInt = GoType ''int'' KInt"
definition goUint :: gotype where "goUint = GoType ''uint'' KUint"
definition goFloat64 :: gotype where "goFloat64 = GoType ''float64'' KFloat64"
definition goBool :: gotype where "goBool = GoType ''bool'' KBool"
definition goString :: gotype where "goString = GoType ''string'' KString"
definition goAny :: gotype where "goAny = GoType ''interface {}'' KInterface"
definition jsValueType :: gotype where "jsValueType = GoType ''js.Value'' KStruct"

definition errorsNew :: "string \<Rightarrow> val" where
  "errorsNew msg = V (GoType ''*errors.errorString'' KPointer) (PError msg)"

fun dynType :: "val \<Rightarrow> gotype option" where
  "dynType VNil = None"
| "dynType (V t p) = Some t"

text \<open>
  What the generated code needs to know of the package it is compiled in and of the Go
  library, none of which is in the repository: the type an identifier denotes, which
  types implement an interface type, the zero value of a type, how \<open>fmt\<close> prints a value
  under a verb, whether reflection may assign one field value to another, the Unicode
  upper-case test, and the int that the conversion of a float64 gives when no int
  represents its truncation (the Go specification leaves it to the implementation).
\<close>

record goenv =
  resolve :: "string \<Rightarrow> gotype"
  implements :: "gotype \<Rightarrow> gotype \<Rightarrow> bool"
  zeroValue :: "gotype \<Rightarrow> val"
  fmtValue :: "val \<Rightarrow> bool \<Rightarrow> char \<Rightarrow> string"
  assignable :: "val \<Rightarrow> val \<Rightarrow> bool"
  isUpperRune :: "string \<Rightarrow> bool"
  unrepresentable :: "jsnumber \<Rightarrow> int"

text \<open>
  The type assertion \<open>x.(T)\<close> in its two-result form: it fails on nil; for an interface type
  \<open>T\<close> it holds when the dynamic type implements \<open>T\<close>, for any other type when the dynamic
  type is identical to \<open>T\<close>.
\<close>

definition typeAssert :: "goenv \<Rightarrow> val \<Rightarrow> string \<Rightarrow> val option" where
  "typeAssert env x T =
     (case x of
        VNil \<Rightarrow> None
      | V d p \<Rightarrow>
          (let t = resolve env T
           in if kindOf t = KInterface then (if implements env d t then Some x else None)
              else if d = t then Some x else None))"

definition operand :: "goenv \<Rightarrow> val \<Rightarrow> fmtarg" where
  "operand env v =
     AOperand (case v of VNil \<Rightarrow> ''<nil>'' | V t p \<Rightarrow> typeName t) (fmtValue env v)"

section \<open>Running the generated dispatcher\<close>

record Argument =
  Value :: val
  Typ :: nat

text \<open>
  A \<open>reflect.Value\<close>: the zero Value, a copy of a value, or the addressable variable that
  \<open>reflect.ValueOf(&p).Elem()\<close> denotes.
\<close>

datatype rvalue = RInvalid | RVal val | RElem string

datatype slot = SVal val | SArg Argument | SReflect rvalue

text \<open>
  How a run of \<open>AgrowsReceive\<close> ends: it returns \<open>(reply, err)\<close>, or it panics, or it is
  a run of code that the Go compiler refuses, so that no dispatcher makes it: a variable
  that is not declared or has another type, an assignment with the wrong count, or a
  variable that is declared and used nowhere (\<open>declared and not used\<close>).
\<close>

datatype outcome = Returned string val | Panicked string | IllFormed

type_synonym vars = "string \<rightharpoonup> slot"
type_synonym calls = "(string \<times> val list) list"

datatype step = Next vars calls | Stop outcome calls

definition zeroSlot :: "goenv \<Rightarrow> vartype \<Rightarrow> slot" where
  "zeroSlot env t =
     (case t of
        TyNamed T \<Rightarrow> SVal (zeroValue env (resolve env T))
      | TyArgument \<Rightarrow> SArg \<lparr>Value = VNil, Typ = 0\<rparr>
      | TyReflectValue \<Rightarrow> SReflect RInvalid
      | TyBool \<Rightarrow> SVal (V goBool (PBool False)))"

fun declare_vars :: "goenv \<Rightarrow> (string \<times> vartype) list \<Rightarrow> vars \<Rightarrow> vars" where
  "declare_vars env [] vs = vs"
| "declare_vars env ((x, t) # ds) vs = declare_vars env ds (vs(x \<mapsto> zeroSlot env t))"

definition getVal :: "vars \<Rightarrow> string \<Rightarrow> val option" where
  "getVal vs x = (case vs x of Some (SVal v) \<Rightarrow> Some v | _ \<Rightarrow> None)"

fun getVals :: "vars \<Rightarrow> string list \<Rightarrow> val list option" where
  "getVals vs [] = Some []"
| "getVals vs (x # xs) =
     (case getVal vs x of
        None \<Rightarrow> None
      | Some v \<Rightarrow> (case getVals vs xs of None \<Rightarrow> None | Some rest \<Rightarrow> Some (v # rest)))"

fun bindAll :: "vars \<Rightarrow> string list \<Rightarrow> val list \<Rightarrow> vars" where
  "bindAll vs (x # xs) (r # rs) = bindAll (vs(x \<mapsto> SVal r)) xs rs"
| "bindAll vs xs rs = vs"

definition ValueOf :: "val \<Rightarrow> rvalue" where
  "ValueOf v = (if v = VNil then RInvalid else RVal v)"

text \<open>
  \<open>pv.FieldByName(key)\<close> on the value that \<open>pv\<close> holds (\<open>None\<close> for the zero Value): it
  panics unless the kind is Struct, and gives the zero Value when no field has the name.
\<close>

definition FieldByName :: "val option \<Rightarrow> string \<Rightarrow> string + val option" where
  "FieldByName src key =
     (case src of
        None \<Rightarrow> Inl ''reflect: call of reflect.Value.FieldByName on zero Value''
      | Some (V t (PStruct fs)) \<Rightarrow> Inr (map_of fs key)
      | Some _ \<Rightarrow> Inl ''reflect: call of reflect.Value.FieldByName on non-struct Value'')"

text \<open>
  The body of the field loop, over the fields of the target in order. A field can be set
  when the target is addressable and the field is exported; \<open>Set\<close> panics on the zero
  Value and on a value that is not assignable to the field.
\<close>

fun copyFields ::
  "goenv \<Rightarrow> bool \<Rightarrow> val option \<Rightarrow> (string \<times> val) list \<Rightarrow> string + (string \<times> val) list" where
  "copyFields env addressable src [] = Inr []"
| "copyFields env addressable src ((key, old) # rest) =
     (case FieldByName src key of
        Inl msg \<Rightarrow> Inl msg
      | Inr paramValueField \<Rightarrow>
          if addressable \<and> IsExported (isUpperRune env) key
          then (case paramValueField of
                  None \<Rightarrow> Inl ''reflect: call of reflect.Value.Set on zero Value''
                | Some x \<Rightarrow>
                    if assignable env x old
                    then (case copyFields env addressable src rest of
                            Inl msg \<Rightarrow> Inl msg
                          | Inr rest' \<Rightarrow> Inr ((key, x) # rest'))
                    else Inl ''reflect.Set: value is not assignable to the field type'')
          else (case copyFields env addressable src rest of
                  Inl msg \<Rightarrow> Inl msg
                | Inr rest' \<Rightarrow> Inr ((key, old) # rest')))"

definition heldBy :: "vars \<Rightarrow> rvalue \<Rightarrow> val option" where
  "heldBy vs r =
     (case r of RInvalid \<Rightarrow> None | RVal v \<Rightarrow> Some v | RElem p \<Rightarrow> getVal vs p)"

text \<open>
  One statement, run on the variables and the calls made so far. \<open>impl f vs\<close> is what the
  renamed implementation \<open>f\<close> returns on the arguments \<open>vs\<close>; \<open>args\<close> is the decoded
  named-argument table.
\<close>

fun exec ::
  "goenv \<Rightarrow> (string \<Rightarrow> val list \<Rightarrow> val list) \<Rightarrow> (string \<rightharpoonup> Argument) \<Rightarrow> stmt \<Rightarrow> vars \<Rightarrow> calls \<Rightarrow> step" where
  "exec env impl args (VarDefs ds) vs cs = Next (declare_vars env ds vs) cs"
| "exec env impl args (AssignValueOfArg pv a) vs cs =
     (case vs a of
        Some (SArg arg) \<Rightarrow> Next (vs(pv \<mapsto> SReflect (ValueOf (Value arg)))) cs
      | _ \<Rightarrow> Stop IllFormed cs)"
| "exec env impl args (AssignElemOf v p) vs cs =
     (case vs p of
        Some (SVal x) \<Rightarrow> Next (vs(v \<mapsto> SReflect (RElem p))) cs
      | _ \<Rightarrow> Stop IllFormed cs)"
| "exec env impl args (ForFields v pv) vs cs =
     (case (vs v, vs pv) of
        (Some (SReflect (RElem p)), Some (SReflect src)) \<Rightarrow>
          (case getVal vs p of
             Some (V t (PStruct fs)) \<Rightarrow>
               (case copyFields env True (heldBy vs src) fs of
                  Inl msg \<Rightarrow> Stop (Panicked msg) cs
                | Inr fs' \<Rightarrow> Next (vs(p \<mapsto> SVal (V t (PStruct fs')))) cs)
           | Some _ \<Rightarrow> Stop (Panicked ''reflect: call of reflect.Value.NumField on non-struct Value'') cs
           | None \<Rightarrow> Stop IllFormed cs)
      | (Some (SReflect (RVal (V t (PStruct fs)))), Some (SReflect src)) \<Rightarrow>
          (case copyFields env False (heldBy vs src) fs of
             Inl msg \<Rightarrow> Stop (Panicked msg) cs
           | Inr fs' \<Rightarrow> Next vs cs)
      | (Some (SReflect (RVal _)), Some (SReflect src)) \<Rightarrow>
          Stop (Panicked ''reflect: call of reflect.Value.NumField on non-struct Value'') cs
      | (Some (SReflect RInvalid), Some (SReflect src)) \<Rightarrow>
          Stop (Panicked ''reflect: call of reflect.Value.NumField on zero Value'') cs
      | _ \<Rightarrow> Stop IllFormed cs)"
| "exec env impl args (IfArgMissing a name) vs cs =
     (case args name of
        None \<Rightarrow>
          Stop (Returned [] (errorsNew
                  (Sprintf ''parameter %s is not in the received arguments'' [AString name]))) cs
      | Some arg \<Rightarrow> Next (vs(a \<mapsto> SArg arg, ''ok'' \<mapsto> SVal (V goBool (PBool True)))) cs)"
| "exec env impl args (IfCastFails p a T) vs cs =
     (case vs a of
        Some (SArg arg) \<Rightarrow>
          (case typeAssert env (Value arg) T of
             Some x \<Rightarrow> Next (vs(p \<mapsto> SVal x, ''ok'' \<mapsto> SVal (V goBool (PBool True)))) cs
           | None \<Rightarrow>
               Stop (Returned [] (errorsNew
                       (Sprintf (''failed to cast parameter '%s' to '%s'' @ [CHR 0x27])
                          [operand env (zeroValue env (resolve env T)), AString T]))) cs)
      | _ \<Rightarrow> Stop IllFormed cs)"
| "exec env impl args (Call f ps) vs cs =
     (case getVals vs ps of
        None \<Rightarrow> Stop IllFormed cs
      | Some xs \<Rightarrow> Next vs (cs @ [(f, xs)]))"
| "exec env impl args ReturnEmptyNil vs cs = Stop (Returned [] VNil) cs"
| "exec env impl args (DefineCall xs f ps) vs cs =
     (case getVals vs ps of
        None \<Rightarrow> Stop IllFormed cs
      | Some as \<Rightarrow>
          if length (impl f as) = length xs
          then Next (bindAll vs xs (impl f as)) (cs @ [(f, as)])
          else Stop IllFormed (cs @ [(f, as)]))"
| "exec env impl args (IfErrNotNil e) vs cs =
     (case getVal vs e of
        None \<Rightarrow> Stop IllFormed cs
      | Some x \<Rightarrow> if x \<noteq> VNil then Stop (Returned [] x) cs else Next vs cs)"
| "exec env impl args (ReturnId s) vs cs =
     (case getVal vs s of
        Some (V t (PString str)) \<Rightarrow> Stop (Returned str VNil) cs
      | _ \<Rightarrow> Stop IllFormed cs)"
| "exec env impl args (ReturnSprintf format xs) vs cs =
     (case getVals vs xs of
        None \<Rightarrow> Stop IllFormed cs
      | Some rs \<Rightarrow> Stop (Returned (Sprintf format (map (operand env) rs)) VNil) cs)"

text \<open>A case body; one that ends without a return statement does not compile.\<close>

fun execBlock ::
  "goenv \<Rightarrow> (string \<Rightarrow> val list \<Rightarrow> val list) \<Rightarrow> (string \<rightharpoonup> Argument) \<Rightarrow> stmt list \<Rightarrow> vars \<Rightarrow> calls \<Rightarrow> outcome \<times> calls" where
  "execBlock env impl args [] vs cs = (IllFormed, cs)"
| "execBlock env impl args (s # ss) vs cs =
     (case exec env impl args s vs cs of
        Stop out cs' \<Rightarrow> (out, cs')
      | Next vs' cs' \<Rightarrow> execBlock env impl args ss vs' cs')"

text \<open>
  The variables that a statement declares and the variables that it uses. An assignment
  to a variable is not a use of it: \<open>a, ok = args["name"]\<close> uses neither \<open>a\<close> nor \<open>ok\<close>,
  the condition \<open>!ok\<close> uses \<open>ok\<close>. \<open>a.Value\<close>, \<open>&p\<close> and a method call on \<open>v\<close> are uses.
\<close>

fun declaredBy :: "stmt \<Rightarrow> string list" where
  "declaredBy (VarDefs ds) = map fst ds"
| "declaredBy (AssignValueOfArg pv a) = []"
| "declaredBy (AssignElemOf v p) = []"
| "declaredBy (ForFields v pv) = []"
| "declaredBy (IfArgMissing a name) = []"
| "declaredBy (IfCastFails p a T) = []"
| "declaredBy (Call f ps) = []"
| "declaredBy ReturnEmptyNil = []"
| "declaredBy (DefineCall xs f ps) = xs"
| "declaredBy (IfErrNotNil e) = []"
| "declaredBy (ReturnId s) = []"
| "declaredBy (ReturnSprintf format xs) = []"

fun usedBy :: "stmt \<Rightarrow> string list" where
  "usedBy (VarDefs ds) = []"
| "usedBy (AssignValueOfArg pv a) = [a]"
| "usedBy (AssignElemOf v p) = [p]"
| "usedBy (ForFields v pv) = [v, pv]"
| "usedBy (IfArgMissing a name) = [''ok'']"
| "usedBy (IfCastFails p a T) = [a, ''ok'', p]"
| "usedBy (Call f ps) = ps"
| "usedBy ReturnEmptyNil = []"
| "usedBy (DefineCall xs f ps) = ps"
| "usedBy (IfErrNotNil e) = [e]"
| "usedBy (ReturnId s) = [s]"
| "usedBy (ReturnSprintf format xs) = xs"

text \<open>The variables that a case declares and uses nowhere; the compiler reports each of them.\<close>

definition declaredAndNotUsed :: "stmt list \<Rightarrow> string list" where
  "declaredAndNotUsed body =
     filter (\<lambda>x. x \<notin> set (concat (map usedBy body))) (concat (map declaredBy body))"

text \<open>
  Before the switch the function declares \<open>functionName\<close>, \<open>args\<close> and \<open>err\<close>. The
  switch uses \<open>functionName\<close> and the check of the error uses \<open>err\<close>; \<open>args\<close> is used
  only by the lookup of a primitive parameter.
\<close>

fun usesArgs :: "stmt \<Rightarrow> bool" where
  "usesArgs (IfArgMissing a name) = True"
| "usesArgs (VarDefs ds) = False"
| "usesArgs (AssignValueOfArg pv a) = False"
| "usesArgs (AssignElemOf v p) = False"
| "usesArgs (ForFields v pv) = False"
| "usesArgs (IfCastFails p a T) = False"
| "usesArgs (Call f ps) = False"
| "usesArgs ReturnEmptyNil = False"
| "usesArgs (DefineCall xs f ps) = False"
| "usesArgs (IfErrNotNil e) = False"
| "usesArgs (ReturnId s) = False"
| "usesArgs (ReturnSprintf format xs) = False"

text \<open>
  The compiler accepts the generated function, as far as its rule on variables goes: no
  case has a variable that is declared and not used, and some case uses \<open>args\<close>.
\<close>

definition compiles :: "switch_case list \<Rightarrow> bool" where
  "compiles cases =
     (list_all (\<lambda>c. declaredAndNotUsed (caseBody c) = []) cases \<and>
      list_ex (\<lambda>c. list_ex usesArgs (caseBody c)) cases)"

text \<open>
  \<open>AgrowsReceive(data)\<close> as generated: decode the payload with the codec's
  \<open>DecodeFunctionCall\<close> (the parameter \<open>decode\<close>), return its error if it has one, then
  switch on the function name: the first case with that key runs, and the \<open>default\<close> clause
  returns the error \<open>unknown function\<close>. When the compiler does not accept the function
  there is no dispatcher in which a case could run, and a call that selects a case is
  \<open>IllFormed\<close>; the \<open>default\<close> clause is given as it is written. The result is the
  outcome and the calls of implementations made, in order.
\<close>

definition AgrowsReceive ::
  "goenv \<Rightarrow> ('d \<Rightarrow> string \<times> (string \<rightharpoonup> Argument) \<times> val) \<Rightarrow> (string \<Rightarrow> val list \<Rightarrow> val list) \<Rightarrow>
   switch_case list \<Rightarrow> 'd \<Rightarrow> outcome \<times> calls" where
  "AgrowsReceive env decode impl cases data =
     (case decode data of
        (functionName, args, err) \<Rightarrow>
          if err \<noteq> VNil then (Returned [] err, [])
          else (case find (\<lambda>c. caseKey c = functionName) cases of
                  Some c \<Rightarrow>
                    if \<not> compiles cases then (IllFormed, [])
                    else execBlock env impl args (caseBody c) Map.empty []
                | None \<Rightarrow>
                    (Returned [] (errorsNew
                       (Sprintf (''unknown function '%s'' @ [CHR 0x27]) [AString functionName])), [])))"

section \<open>The generated client, as the generator emits it\<close>

text \<open>
  The native proxy of a function: its name, its parameters (name, when there is one, and
  type), and the call \<open>EncodeFunctionCall(name, Options(), map[string]any{...})\<close> with the
  name literal and the entries (key literal, identifier) of the map, followed by
  \<open>if err != nil { return err }\<close> and \<open>return sendMessage(data)\<close>.
\<close>

record proxy =
  proxyName :: string
  proxyParams :: "(string option \<times> string) list"
  encodeName :: string
  encodeArgs :: "(string \<times> string) list"

text \<open>
  The statements of a bridge wrapper \<open>func(this js.Value, p []js.Value) any\<close>:
  \<^item> \<open>IfLenMismatch n format\<close>: \<open>if len(p) != n { return Error.New(fmt.Sprintf(format, len(p))) }\<close>;
  \<^item> \<open>ConvertParam a i T\<close>: \<open>a, err := jsValueToAny(p[i], reflect.TypeOf((*T)(nil)).Elem())\<close>;
  \<^item> \<open>IfConvErr format\<close>: \<open>if err != nil { return Error.New(fmt.Sprintf(format, err)) }\<close>;
  \<^item> \<open>AssertParam x a T\<close>: \<open>x, ok := a.(T)\<close>;
  \<^item> \<open>IfNotOk msg\<close>: \<open>if !ok { return Error.New(fmt.Sprintf(msg)) }\<close>;
  \<^item> \<open>ReturnCall f xs\<close>: \<open>return f(xs...)\<close>.
\<close>

datatype wstmt =
    IfLenMismatch nat string
  | ConvertParam string nat string
  | IfConvErr string
  | AssertParam string string string
  | IfNotOk string
  | ReturnCall string "string list"

record wrapper =
  wrapperName :: string
  wrapperBody :: "wstmt list"

record stub_pair =
  nativeProxy :: proxy
  bridgeWrapper :: wrapper

definition proxyParam :: "ParamReflectInfo \<Rightarrow> panic + (string option \<times> string)" where
  "proxyParam paramInfo =
     (let param = DstField paramInfo
      in if length (Names param) > 0
         then bindP (firstName param) (\<lambda>n. bindP (identName (Type param)) (\<lambda>t. Inr (Some n, t)))
         else bindP (identName (Type param)) (\<lambda>t. Inr (None, t)))"

definition encodeArg :: "ParamReflectInfo \<Rightarrow> panic + (string \<times> string)" where
  "encodeArg paramInfo = bindP (firstName (DstField paramInfo)) (\<lambda>n. Inr (n, n))"

text \<open>The statements that convert the \<open>i\<close>-th bridge argument; none for a parameter without a name.\<close>

definition wrapperParam :: "nat \<Rightarrow> ParamReflectInfo \<Rightarrow> panic + wstmt list" where
  "wrapperParam i paramInfo =
     (let param = DstField paramInfo
      in if length (Names param) > 0
         then bindP (firstName param) (\<lambda>paramName.
              bindP (identName (Type param)) (\<lambda>paramType.
                let paramNameAsAny = paramName @ ''AsAny''
                in Inr [ConvertParam paramNameAsAny i paramType,
                        IfConvErr (Sprintf (''failed to make go type '%s' from js value: %%+v'') [AString paramType]),
                        AssertParam paramName paramNameAsAny paramType,
                        IfNotOk (Sprintf (''parameter '%s' is not in the received arguments'') [AString paramName])]))
         else Inr [])"

fun wrapperParams :: "nat \<Rightarrow> ParamReflectInfo list \<Rightarrow> panic + wstmt list" where
  "wrapperParams i [] = Inr []"
| "wrapperParams i (paramInfo # rest) =
     bindP (wrapperParam i paramInfo) (\<lambda>ss.
     bindP (wrapperParams (Suc i) rest) (\<lambda>more. Inr (ss @ more)))"

definition returnArg :: "ParamReflectInfo \<Rightarrow> panic + string list" where
  "returnArg paramInfo =
     (let param = DstField paramInfo
      in if length (Names param) > 0 then bindP (firstName param) (\<lambda>n. Inr [n]) else Inr [])"

definition generateNewClientFunc :: "FuncInfo \<Rightarrow> panic + stub_pair" where
  "generateNewClientFunc info =
     bindP (mapP proxyParam (Params info)) (\<lambda>ps.
     bindP (mapP encodeArg (Params info)) (\<lambda>entries.
     bindP (wrapperParams 0 (Params info)) (\<lambda>conv.
     bindP (mapP returnArg (Params info)) (\<lambda>as.
       let paramCount = length (Params info)
       in Inr \<lparr>nativeProxy =
                 \<lparr>proxyName = OriginalIdentifier info, proxyParams = ps,
                  encodeName = OriginalIdentifier info, encodeArgs = entries\<rparr>,
               bridgeWrapper =
                 \<lparr>wrapperName = Sprintf wrapperFunctionFormat [AString (OriginalIdentifier info)],
                  wrapperBody =
                    [IfLenMismatch paramCount
                       (Sprintf ''expected %d arguments, got %%d'' [AInt (int paramCount)])] @
                    conv @
                    [ReturnCall (OriginalIdentifier info) (concat as)]\<rparr>\<rparr>))))"

text \<open>
  \<open>generateClientMain\<close>: per function, the name under which the wrapper is registered, the
  wrapper's identifier and the line that is printed.
\<close>

definition generateClientMain :: "FuncInfo list \<Rightarrow> panic + (string \<times> string \<times> string) list" where
  "generateClientMain funcInfos =
     mapP (\<lambda>fnInfo.
       bindP (mapP (\<lambda>item. identName (Type (DstField item))) (Params fnInfo)) (\<lambda>ts.
         Inr (OriginalIdentifier fnInfo,
              Sprintf wrapperFunctionFormat [AString (OriginalIdentifier fnInfo)],
              Sprintf (''AGROWS: '%s(%s)' function registered'')
                [AString (OriginalIdentifier fnInfo), AString (joinWith '', '' ts)]))) funcInfos"

section \<open>The value conversion routine \<open>jsValueToAny\<close>\<close>

definition jsError :: "string \<Rightarrow> val" where
  "jsError msg = V jsValueType (PJS (JSError msg))"

text \<open>Conversion of a float64 to an integer discards the fraction (truncation towards zero).\<close>

definition truncateFloat :: "rat \<Rightarrow> int" where
  "truncateFloat r = (if 0 \<le> r then \<lfloor>r\<rfloor> else \<lceil>r\<rceil>)"

text \<open>
  \<open>v.Int()\<close> is \<open>int(v.Float())\<close> with a 64-bit \<open>int\<close>: the truncation when an int
  represents it.
\<close>

definition Value_Int :: "goenv \<Rightarrow> jsnumber \<Rightarrow> int" where
  "Value_Int env x =
     (case x of
        Num r \<Rightarrow> if - (2 ^ 63) \<le> truncateFloat r \<and> truncateFloat r < 2 ^ 63 then truncateFloat r
                  else unrepresentable env x
      | _ \<Rightarrow> unrepresentable env x)"

text \<open>\<open>uint(i)\<close> of an int wraps around.\<close>

definition uint_of :: "int \<Rightarrow> int" where
  "uint_of i = i mod 2 ^ 64"

text \<open>The encoding-to-JSON collaborators: each returns its result and its error (nil when none).\<close>

record jsonlib =
  Marshal :: "(string \<rightharpoonup> val) \<Rightarrow> string \<times> val"
  Unmarshal :: "string \<Rightarrow> gotype \<Rightarrow> val \<times> val"

text \<open>The tail of the object case: marshal the table, unmarshal into a fresh target.\<close>

definition viaJSON :: "goenv \<Rightarrow> jsonlib \<Rightarrow> (string \<rightharpoonup> val) \<Rightarrow> gotype \<Rightarrow> val \<times> val" where
  "viaJSON env json result targetType =
     (case Marshal json result of
        (jsonData, err) \<Rightarrow>
          if err \<noteq> VNil
          then (VNil, jsError (Sprintf ''failed to marshal js object to json: %v'' [operand env err]))
          else (case Unmarshal json jsonData targetType of
                  (targetValue, err') \<Rightarrow>
                    if err' \<noteq> VNil
                    then (VNil, jsError (Sprintf ''failed to unmarshal json to target type: %v'' [operand env err']))
                    else (targetValue, VNil)))"

text \<open>
  \<open>jsValueToAny(v, targetType)\<close> returns a value and an error, both of type \<open>any\<close>. The
  switch is on \<open>v.Type()\<close>; in the number case a second switch is on \<open>targetType.Kind()\<close>.
  \<open>convertKeys\<close> is the loop of the object case over \<open>Object.keys(v)\<close>.
\<close>

fun jsValueToAny :: "goenv \<Rightarrow> jsonlib \<Rightarrow> jsvalue \<Rightarrow> gotype \<Rightarrow> val \<times> val"
  and convertKeys :: "goenv \<Rightarrow> jsonlib \<Rightarrow> (string \<times> jsvalue) list \<Rightarrow> (string \<rightharpoonup> val) \<Rightarrow> val + (string \<rightharpoonup> val)" where
  "jsValueToAny env json (JSBoolean b) targetType = (V goBool (PBool b), VNil)"
| "jsValueToAny env json (JSNumber x) targetType =
     (if kindOf targetType \<in> {KInt, KInt8, KInt16, KInt32, KInt64}
      then (V goInt (PInt (Value_Int env x)), VNil)
      else if kindOf targetType \<in> {KUint, KUint8, KUint16, KUint32, KUint64}
      then (V goUint (PInt (uint_of (Value_Int env x))), VNil)
      else if kindOf targetType \<in> {KFloat32, KFloat64}
      then (V goFloat64 (PFloat x), VNil)
      else (V goFloat64 (PFloat x), VNil))"
| "jsValueToAny env json (JSString s) targetType = (V goString (PString s), VNil)"
| "jsValueToAny env json (JSObject kvs) targetType =
     (case convertKeys env json kvs Map.empty of
        Inl err \<Rightarrow> (VNil, err)
      | Inr result \<Rightarrow> viaJSON env json result targetType)"
| "jsValueToAny env json (JSError msg) targetType = viaJSON env json Map.empty targetType"
| "jsValueToAny env json (JSFunction f) targetType = (V jsValueType (PJS (JSFunction f)), VNil)"
| "jsValueToAny env json JSUndefined targetType = (VNil, VNil)"
| "jsValueToAny env json JSNull targetType = (VNil, VNil)"
| "jsValueToAny env json JSSymbol targetType =
     (VNil, jsError (Sprintf ''unsupported js value type: %s'' [AString ''symbol'']))"
| "convertKeys env json [] result = Inr result"
| "convertKeys env json ((key, v) # kvs) result =
     (case jsValueToAny env json v goAny of
        (value, err) \<Rightarrow>
          if err \<noteq> VNil then Inl err
          else convertKeys env json kvs (result(key \<mapsto> value)))"

section \<open>Running a generated bridge wrapper\<close>

datatype woutcome = WReturned val | WPanicked string | WIllFormed

type_synonym wvars = "string \<rightharpoonup> val"

datatype wstep = WNext wvars calls | WStop woutcome calls

fun wgetVals :: "wvars \<Rightarrow> string list \<Rightarrow> val list option" where
  "wgetVals vs [] = Some []"
| "wgetVals vs (x # xs) =
     (case vs x of
        None \<Rightarrow> None
      | Some v \<Rightarrow> (case wgetVals vs xs of None \<Rightarrow> None | Some rest \<Rightarrow> Some (v # rest)))"

text \<open>
  One statement of a wrapper, run on the bridge arguments \<open>p\<close>. \<open>native f as\<close> is what the
  call \<open>f(as...)\<close> of the native proxy returns.
\<close>

fun wexec ::
  "goenv \<Rightarrow> jsonlib \<Rightarrow> (string \<Rightarrow> val list \<Rightarrow> val) \<Rightarrow> jsvalue list \<Rightarrow> wstmt \<Rightarrow> wvars \<Rightarrow> calls \<Rightarrow> wstep" where
  "wexec env json native p (IfLenMismatch n format) vs cs =
     (if length p \<noteq> n
      then WStop (WReturned (jsError (Sprintf format [AInt (int (length p))]))) cs
      else WNext vs cs)"
| "wexec env json native p (ConvertParam a i T) vs cs =
     (if i < length p
      then (case jsValueToAny env json (p ! i) (resolve env T) of
              (x, err) \<Rightarrow> WNext (vs(a \<mapsto> x, ''err'' \<mapsto> err)) cs)
      else WStop (WPanicked ''index out of range'') cs)"
| "wexec env json native p (IfConvErr format) vs cs =
     (case vs ''err'' of
        None \<Rightarrow> WStop WIllFormed cs
      | Some err \<Rightarrow>
          if err \<noteq> VNil then WStop (WReturned (jsError (Sprintf format [operand env err]))) cs
          else WNext vs cs)"
| "wexec env json native p (AssertParam x a T) vs cs =
     (case vs a of
        None \<Rightarrow> WStop WIllFormed cs
      | Some v \<Rightarrow>
          (case typeAssert env v T of
             Some y \<Rightarrow> WNext (vs(x \<mapsto> y, ''ok'' \<mapsto> V goBool (PBool True))) cs
           | None \<Rightarrow> WNext (vs(x \<mapsto> zeroValue env (resolve env T), ''ok'' \<mapsto> V goBool (PBool False))) cs))"
| "wexec env json native p (IfNotOk msg) vs cs =
     (case vs ''ok'' of
        Some (V t (PBool ok)) \<Rightarrow>
          if \<not> ok then WStop (WReturned (jsError (Sprintf msg []))) cs else WNext vs cs
      | _ \<Rightarrow> WStop WIllFormed cs)"
| "wexec env json native p (ReturnCall f xs) vs cs =
     (case wgetVals vs xs of
        None \<Rightarrow> WStop WIllFormed cs
      | Some as \<Rightarrow> WStop (WReturned (native f as)) (cs @ [(f, as)]))"

fun wexecBlock ::
  "goenv \<Rightarrow> jsonlib \<Rightarrow> (string \<Rightarrow> val list \<Rightarrow> val) \<Rightarrow> jsvalue list \<Rightarrow> wstmt list \<Rightarrow> wvars \<Rightarrow> calls \<Rightarrow> woutcome \<times> calls" where
  "wexecBlock env json native p [] vs cs = (WIllFormed, cs)"
| "wexecBlock env json native p (s # ss) vs cs =
     (case wexec env json native p s vs cs of
        WStop out cs' \<Rightarrow> (out, cs')
      | WNext vs' cs' \<Rightarrow> wexecBlock env json native p ss vs' cs')"

text \<open>A call of the wrapper from the bridge with the argument array \<open>p\<close>.\<close>

definition callWrapper ::
  "goenv \<Rightarrow> jsonlib \<Rightarrow> (string \<Rightarrow> val list \<Rightarrow> val) \<Rightarrow> wrapper \<Rightarrow> jsvalue list \<Rightarrow> woutcome \<times> calls" where
  "callWrapper env json native w p = wexecBlock env json native p (wrapperBody w) Map.empty []"

section \<open>Rewriting the tree, and merging it with the generated file\<close>

datatype genType = SERVER | CLIENT

fun modifyOriginalFunctions :: "(string \<Rightarrow> bool) \<Rightarrow> decl list \<Rightarrow> decl list" where
  "modifyOriginalFunctions up [] = []"
| "modifyOriginalFunctions up (FuncDecl name ps rs body # ds) =
     (if IsExported up name
      then FuncDecl (Sprintf modifiedFunctionFormat [AString name]) ps rs body # modifyOriginalFunctions up ds
      else FuncDecl name ps rs body # modifyOriginalFunctions up ds)"
| "modifyOriginalFunctions up (GenDecl t specs # ds) = GenDecl t specs # modifyOriginalFunctions up ds"

fun isFuncDecl :: "decl \<Rightarrow> bool" where
  "isFuncDecl (FuncDecl name ps rs body) = True"
| "isFuncDecl (GenDecl t specs) = False"

definition removeOriginalAndUnexportedFunctions :: "decl list \<Rightarrow> decl list" where
  "removeOriginalAndUnexportedFunctions ds = filter (\<lambda>d. \<not> isFuncDecl d) ds"

text \<open>What \<open>main\<close> adds to the new file, by generation mode.\<close>

datatype generated =
    ServerReceiver "switch_case list"
  | JsValueToAny
  | ClientFunc stub_pair
  | JSSendMessageFunction
  | ClientMain "(string \<times> string \<times> string) list"

definition generateFile :: "genType \<Rightarrow> FuncInfo list \<Rightarrow> panic + generated list" where
  "generateFile generatorType funcInfos =
     (case generatorType of
        SERVER \<Rightarrow> bindP (generateServerReceiver funcInfos) (\<lambda>cases. Inr [ServerReceiver cases])
      | CLIENT \<Rightarrow>
          bindP (mapP generateNewClientFunc funcInfos) (\<lambda>pairs.
          bindP (generateClientMain funcInfos) (\<lambda>registrations.
            Inr ([JsValueToAny] @ map ClientFunc pairs @
                 [JSSendMessageFunction, ClientMain registrations]))))"

text \<open>A reading of the clock, and the two layouts \<open>2006-01-02\<close> and \<open>15:04:05\<close>.\<close>

record gotime =
  year :: nat
  month :: nat
  day :: nat
  hour :: nat
  minute :: nat
  second :: nat
  nanosecond :: nat

definition pad :: "nat \<Rightarrow> string \<Rightarrow> string" where
  "pad w s = replicate (w - length s) (CHR ''0'') @ s"

definition formatDate :: "gotime \<Rightarrow> string" where
  "formatDate t = pad 4 (showNat (year t)) @ ''-'' @ pad 2 (showNat (month t)) @ ''-'' @ pad 2 (showNat (day t))"

definition formatClock :: "gotime \<Rightarrow> string" where
  "formatClock t = pad 2 (showNat (hour t)) @ '':'' @ pad 2 (showNat (minute t)) @ '':'' @ pad 2 (showNat (second t))"

text \<open>
  The libraries that the merge calls, none of them in the repository: rendering the
  generated file, parsing the rendered text, decorating the parsed file (giving its
  declarations), restoring the combined file, printing it, and \<open>format.Source\<close>. Each
  gives the message of its error or its result.
\<close>

record ('g, 'a) library =
  Render :: "'g \<Rightarrow> string + string"
  ParseFile :: "string \<Rightarrow> string + 'a"
  DecorateFile :: "'a \<Rightarrow> string + decl list"
  RestoreFile :: "dst_file \<Rightarrow> string + 'a"
  Fprint :: "'a \<Rightarrow> string + string"
  formatSource :: "string \<Rightarrow> string + string"

fun isImport :: "decl \<Rightarrow> bool" where
  "isImport (GenDecl t specs) = (t = IMPORT)"
| "isImport (FuncDecl name ps rs body) = False"

fun importSpecs :: "decl list \<Rightarrow> spec list" where
  "importSpecs [] = []"
| "importSpecs (GenDecl t specs # ds) = (if t = IMPORT then specs @ importSpecs ds else importSpecs ds)"
| "importSpecs (FuncDecl name ps rs body # ds) = importSpecs ds"

definition filePrefixOf :: "genType \<Rightarrow> gotime \<Rightarrow> gotime \<Rightarrow> string" where
  "filePrefixOf t now1 now2 =
     (case t of SERVER \<Rightarrow> [] | CLIENT \<Rightarrow> ''//go:build js && wasm && client'' @ [CHR 0x0A]) @
     Sprintf (''/*'' @ [CHR 0x0A, CHR 0x09] @ ''Code generated by agrows. DO NOT EDIT :)'' @
              [CHR 0x0A, CHR 0x09] @ ''This code was generated on %s at %s'' @
              [CHR 0x0A, CHR 0x09] @ ''Any changes made to this file will be lost'' @
              [CHR 0x0A, CHR 0x09] @ ''*/'' @ [CHR 0x0A, CHR 0x09])
       [AString (formatDate now1), AString (formatClock now2)]"

text \<open>
  \<open>writeCombinedTreeAndGenerated(tree, generated, writer, genType)\<close>, with the two readings
  of \<open>time.Now()\<close> that the header formats as further arguments. The result is the error
  message, or the bytes handed to \<open>writer.Write\<close>.
\<close>

definition writeCombinedTreeAndGenerated ::
  "('g, 'a) library \<Rightarrow> dst_file \<Rightarrow> 'g \<Rightarrow> genType \<Rightarrow> gotime \<Rightarrow> gotime \<Rightarrow> string + string" where
  "writeCombinedTreeAndGenerated lib tree gen t now1 now2 =
     (let treeName = (case t of SERVER \<Rightarrow> Name tree | CLIENT \<Rightarrow> ''main'');
          filePrefix = filePrefixOf t now1 now2
      in case Render lib gen of
           Inl err \<Rightarrow> Inl (Sprintf ''failed to render generated code: %v'' [AString err])
         | Inr src \<Rightarrow>
       (case ParseFile lib src of
           Inl err \<Rightarrow> Inl (Sprintf ''failed to parse rendered code: %v'' [AString err])
         | Inr parsedFile \<Rightarrow>
       (case DecorateFile lib parsedFile of
           Inl err \<Rightarrow> Inl (Sprintf ''failed to convert parsed file to dst.File: %v'' [AString err])
         | Inr genDst \<Rightarrow>
       (let sourceImportSpecs = importSpecs (Decls tree);
            genImportSpecs = importSpecs genDst;
            declsWithoutImports = filter (\<lambda>x. \<not> isImport x) (Decls tree @ genDst);
            rebuildImportSpec =
              (case t of
                 SERVER \<Rightarrow> GenDecl IMPORT (sourceImportSpecs @ genImportSpecs)
               | CLIENT \<Rightarrow> GenDecl IMPORT genImportSpecs);
            combined = \<lparr>Name = treeName, Decls = rebuildImportSpec # declsWithoutImports\<rparr>
        in case RestoreFile lib combined of
             Inl err \<Rightarrow> Inl (Sprintf ''failed to restore dst.File: %v'' [AString err])
           | Inr file \<Rightarrow>
         (case Fprint lib file of
             Inl err \<Rightarrow> Inl (Sprintf ''failed to write to buffer: %v'' [AString err])
           | Inr printed \<Rightarrow> formatSource lib (filePrefix @ printed))))))"

text \<open>
  \<open>main\<close>, for a run whose mode is given and whose input file can be read. \<open>input\<close> is
  the text of that file and \<open>parse\<close> is \<open>decorator.ParseFile\<close>, the library behind
  \<open>parseFileToTree\<close>; \<open>now1\<close> and \<open>now2\<close> are the two readings of the clock.
  \<open>log.Errorf(true, ...)\<close> logs its message and ends the run (the output file, created
  before the input is parsed, stays empty). So a run ends with the message of a failure,
  with a panic of the generator, or with the bytes handed to the output.
\<close>

datatype run = Failed string | Panics panic | Written string

definition main ::
  "(string \<Rightarrow> string + dst_file) \<Rightarrow> (generated list, 'a) library \<Rightarrow> (string \<Rightarrow> bool) \<Rightarrow> genType \<Rightarrow>
   string \<Rightarrow> gotime \<Rightarrow> gotime \<Rightarrow> run" where
  "main parse lib up generatorType input now1 now2 =
     (case parse input of
        Inl err \<Rightarrow> Failed (Sprintf ''Failed to parse file: %v'' [AString err])
      | Inr tree \<Rightarrow>
          (let typeMap = extractTypeMap tree;
               functions = extractFuncInfo up (Decls tree) typeMap;
               modified =
                 (case generatorType of
                    SERVER \<Rightarrow> tree\<lparr>Decls := modifyOriginalFunctions up (Decls tree)\<rparr>
                  | CLIENT \<Rightarrow> tree\<lparr>Decls := removeOriginalAndUnexportedFunctions (Decls tree)\<rparr>)
           in case generateFile generatorType functions of
                Inl p \<Rightarrow> Panics p
              | Inr newFile \<Rightarrow>
                  (case writeCombinedTreeAndGenerated lib modified newFile generatorType now1 now2 of
                     Inl err \<Rightarrow> Failed (Sprintf ''Failed to save combined file: %v'' [AString err])
                   | Inr bytes \<Rightarrow> Written bytes)))"

section \<open>Reading the generated file\<close>

text \<open>
  The names of the exported function declarations of a file, in declaration order: the
  functions that the specification calls publicly visible.
\<close>

fun exportedNames :: "(string \<Rightarrow> bool) \<Rightarrow> decl list \<Rightarrow> string list" where
  "exportedNames up [] = []"
| "exportedNames up (FuncDecl name ps rs body # ds) =
     (if IsExported up name then name # exportedNames up ds else exportedNames up ds)"
| "exportedNames up (GenDecl t specs # ds) = exportedNames up ds"

text \<open>The switch cases and the stub pairs that a generated file contains, in order.\<close>

fun casesOf :: "generated list \<Rightarrow> switch_case list" where
  "casesOf [] = []"
| "casesOf (ServerReceiver cases # gs) = cases @ casesOf gs"
| "casesOf (g # gs) = casesOf gs"

fun pairsOf :: "generated list \<Rightarrow> stub_pair list" where
  "pairsOf [] = []"
| "pairsOf (ClientFunc pair # gs) = pair # pairsOf gs"
| "pairsOf (g # gs) = pairsOf gs"

section \<open>Describing the reply\<close>






definition quoted :: "goenv \<Rightarrow> val \<Rightarrow> string" where
  "quoted env r = [CHR 0x27] @ fmtValue env r True (CHR ''v'') @ [CHR 0x27]"




definition rendered :: "goenv \<Rightarrow> val list \<Rightarrow> string" where
  "rendered env rs = joinWith '', '' (map (quoted env) rs)"









text \<open>
  A parameter decodes to \<open>x\<close>: it is primitive, the table has an entry under its name,
  and the assertion of the entry's value to the parameter's type gives \<open>x\<close>.
\<close>

definition decodes :: "goenv \<Rightarrow> (string \<rightharpoonup> Argument) \<Rightarrow> ParamReflectInfo \<Rightarrow> val \<Rightarrow> bool" where
  "decodes env args p x =
     (case (firstName (DstField p), identName (Type (DstField p))) of
        (Inr n, Inr T) \<Rightarrow>
          (case args n of
             None \<Rightarrow> False
           | Some arg \<Rightarrow> \<not> IsStruct p \<and> typeAssert env (Value arg) T = Some x)
      | _ \<Rightarrow> False)"


section \<open>Examples\<close>

text \<open>
  Concrete inputs on which the theorems below are exercised: a Go environment with the
  predeclared types and the struct \<open>CalcInput\<close>, and the functions \<open>Greet\<close>,
  \<open>Sum\<close> and \<open>CrazyMath\<close>.
\<close>

definition exampleZero :: "gotype \<Rightarrow> val" where
  "exampleZero t =
     (if kindOf t \<in> {KInt, KInt8, KInt16, KInt32, KInt64, KUint, KUint8, KUint16, KUint32, KUint64}
      then V t (PInt 0)
      else if kindOf t = KString then V t (PString [])
      else if kindOf t = KBool then V t (PBool False)
      else if kindOf t = KInterface then VNil
      else if t = GoType ''CalcInput'' KStruct
      then V t (PStruct [(''A'', V goInt (PInt 0)), (''B'', V goInt (PInt 0))])
      else V t (PStruct []))"

fun examplePrint :: "val \<Rightarrow> bool \<Rightarrow> char \<Rightarrow> string" where
  "examplePrint VNil flag c = ''<nil>''"
| "examplePrint (V t (PInt i)) flag c = showInt i"
| "examplePrint (V t (PString s)) flag c = s"
| "examplePrint (V t (PError msg)) flag c = msg"
| "examplePrint (V t (PBool b)) flag c = (if b then ''true'' else ''false'')"
| "examplePrint (V t p) flag c = ''?''"

definition exampleResolve :: "string \<Rightarrow> gotype" where
  "exampleResolve T =
     (if T = ''int'' then goInt
      else if T = ''int32'' then GoType ''int32'' KInt32
      else if T = ''uint8'' then GoType ''uint8'' KUint8
      else if T = ''float64'' then goFloat64
      else if T = ''string'' then goString
      else if T = ''bool'' then goBool
      else if T = ''error'' then GoType ''error'' KInterface
      else GoType T KStruct)"

definition exampleImplements :: "gotype \<Rightarrow> gotype \<Rightarrow> bool" where
  "exampleImplements d t =
     (t = goAny \<or> (t = GoType ''error'' KInterface \<and> d = GoType ''*errors.errorString'' KPointer))"

definition exampleAssignable :: "val \<Rightarrow> val \<Rightarrow> bool" where
  "exampleAssignable x old = (dynType x = dynType old)"

definition exampleUpper :: "string \<Rightarrow> bool" where
  "exampleUpper name = False"

definition exampleUnrepresentable :: "jsnumber \<Rightarrow> int" where
  "exampleUnrepresentable x = - (2 ^ 63)"

definition exampleEnv :: goenv where
  "exampleEnv =
     \<lparr>resolve = exampleResolve,
      implements = exampleImplements,
      zeroValue = exampleZero,
      fmtValue = examplePrint,
      assignable = exampleAssignable,
      isUpperRune = exampleUpper,
      unrepresentable = exampleUnrepresentable\<rparr>"

definition exampleMarshal :: "(string \<rightharpoonup> val) \<Rightarrow> string \<times> val" where
  "exampleMarshal m = ([], VNil)"

definition exampleUnmarshal :: "string \<Rightarrow> gotype \<Rightarrow> val \<times> val" where
  "exampleUnmarshal s t = (exampleZero t, VNil)"

definition exampleJson :: jsonlib where
  "exampleJson = \<lparr>Marshal = exampleMarshal, Unmarshal = exampleUnmarshal\<rparr>"

definition exampleGreet :: FuncInfo where
  "exampleGreet =
     \<lparr>OriginalIdentifier = ''Greet'',
      Params = [\<lparr>DstField = \<lparr>Names = [Some ''name''], Type = Ident ''string''\<rparr>, IsStruct = False\<rparr>],
      Results = [\<lparr>DstField = \<lparr>Names = [None], Type = Ident ''string''\<rparr>, IsStruct = False\<rparr>]\<rparr>"

definition exampleGreetCase :: switch_case where
  "exampleGreetCase =
     \<lparr>caseKey = ''Greet'',
      caseBody =
        [VarDefs [(''nameParam'', TyNamed ''string''), (''nameParamArg'', TyArgument), (''ok'', TyBool)],
         IfArgMissing ''nameParamArg'' ''name'',
         IfCastFails ''nameParam'' ''nameParamArg'' ''string'',
         DefineCall [''str0''] ''agrows_Greet'' [''nameParam''],
         ReturnId ''str0'']\<rparr>"

fun exampleImpl :: "string \<Rightarrow> val list \<Rightarrow> val list" where
  "exampleImpl f [V t (PString n)] =
     (if f = ''agrows_Greet'' then [V goString (PString (''Hello, '' @ n))] else [])"
| "exampleImpl f [V t (PInt a), V t' (PInt b)] =
     (if f = ''agrows_Sum'' then [V goInt (PInt (a + b)), VNil] else [])"
| "exampleImpl f as = []"

text \<open>A codec whose payload is the decoded call itself.\<close>

definition exampleDecode ::
  "string \<times> (string \<rightharpoonup> Argument) \<Rightarrow> string \<times> (string \<rightharpoonup> Argument) \<times> val" where
  "exampleDecode data = (fst data, snd data, VNil)"

text \<open>The file of the README, with an unexported function added.\<close>

definition exampleDecls :: "decl list" where
  "exampleDecls =
     [GenDecl IMPORT [ImportSpec ''fmt''],
      FuncDecl ''SayHello'' (Some [\<lparr>Names = [Some ''name''], Type = Ident ''string''\<rparr>])
        (Some [\<lparr>Names = [], Type = Ident ''string''\<rparr>]) [],
      GenDecl TYPEDECL [TypeSpec ''CalcInput'' StructType],
      FuncDecl ''CrazyMath'' (Some [\<lparr>Names = [Some ''inp''], Type = Ident ''CalcInput''\<rparr>])
        (Some [\<lparr>Names = [], Type = Ident ''string''\<rparr>]) [],
      FuncDecl ''helper'' (Some []) None []]"

definition exampleTypeMap :: "string \<rightharpoonup> expr" where
  "exampleTypeMap = [''CalcInput'' \<mapsto> StructType]"

definition exampleServer :: "generated list" where
  "exampleServer = projr (generateFile SERVER (extractFuncInfo exampleUpper exampleDecls exampleTypeMap))"

definition exampleClient :: "generated list" where
  "exampleClient = projr (generateFile CLIENT (extractFuncInfo exampleUpper exampleDecls exampleTypeMap))"

definition exampleGreetPair :: stub_pair where
  "exampleGreetPair = projr (generateNewClientFunc exampleGreet)"

definition exampleNative :: "string \<Rightarrow> val list \<Rightarrow> val" where
  "exampleNative f as = VNil"

definition exampleResize :: FuncInfo where
  "exampleResize =
     \<lparr>OriginalIdentifier = ''Resize'',
      Params = [\<lparr>DstField = \<lparr>Names = [Some ''name''], Type = Ident ''string''\<rparr>, IsStruct = False\<rparr>,
                \<lparr>DstField = \<lparr>Names = [Some ''width''], Type = Ident ''int32''\<rparr>, IsStruct = False\<rparr>],
      Results = []\<rparr>"

definition exampleResizePair :: stub_pair where
  "exampleResizePair = projr (generateNewClientFunc exampleResize)"

















definition exampleMinMax :: decl where
  "exampleMinMax =
     FuncDecl ''MinMax'' (Some [\<lparr>Names = [Some ''a'', Some ''b''], Type = Ident ''int''\<rparr>])
       (Some [\<lparr>Names = [Some ''lo'', Some ''hi''], Type = Ident ''int''\<rparr>]) []"

text \<open>
  \<open>func Scale(factor int, inp CalcInput) string\<close>, with the dispatcher generated for it,
  and two argument tables: one with \<open>factor\<close> alone, one with \<open>factor\<close> and \<open>inp\<close>.
\<close>

definition exampleScale :: FuncInfo where
  "exampleScale =
     \<lparr>OriginalIdentifier = ''Scale'',
      Params = [\<lparr>DstField = \<lparr>Names = [Some ''factor''], Type = Ident ''int''\<rparr>, IsStruct = False\<rparr>,
                \<lparr>DstField = \<lparr>Names = [Some ''inp''], Type = Ident ''CalcInput''\<rparr>, IsStruct = True\<rparr>],
      Results = [\<lparr>DstField = \<lparr>Names = [None], Type = Ident ''string''\<rparr>, IsStruct = False\<rparr>]\<rparr>"

definition exampleScaleCases :: "switch_case list" where
  "exampleScaleCases = projr (generateServerReceiver [exampleScale])"

definition exampleFactorOnly :: "string \<rightharpoonup> Argument" where
  "exampleFactorOnly = [''factor'' \<mapsto> \<lparr>Value = V goInt (PInt 2), Typ = 0\<rparr>]"

definition exampleFactorAndInp :: "string \<rightharpoonup> Argument" where
  "exampleFactorAndInp =
     [''factor'' \<mapsto> \<lparr>Value = V goInt (PInt 2), Typ = 0\<rparr>,
      ''inp'' \<mapsto> \<lparr>Value = V (GoType ''CalcInput'' KStruct)
                            (PStruct [(''A'', V goInt (PInt 2)), (''B'', V goInt (PInt 3))]), Typ = 0\<rparr>]"

text \<open>
  The text of a file with the declarations of \<open>exampleDecls\<close>, a parser that knows
  this one file, libraries that render nothing, print a fixed package clause and
  format a text to itself; and three readings of the clock.
\<close>

definition exampleInput :: string where
  "exampleInput =
     ''package functions'' @ [CHR 0x0A, CHR 0x0A] @ ''import '' @ [CHR 0x22] @ ''fmt'' @
     [CHR 0x22, CHR 0x0A, CHR 0x0A] @ ''func SayHello(name string) string {'' @
     [CHR 0x0A, CHR 0x09] @ ''return '' @ [CHR 0x22] @ ''Hello, '' @ [CHR 0x22] @
     '' + name'' @ [CHR 0x0A] @ ''}'' @ [CHR 0x0A, CHR 0x0A] @ ''type CalcInput struct {'' @
     [CHR 0x0A, CHR 0x09] @ ''A int'' @ [CHR 0x0A, CHR 0x09] @ ''B int'' @ [CHR 0x0A] @
     ''}'' @ [CHR 0x0A, CHR 0x0A] @ ''func CrazyMath(inp CalcInput) string {'' @
     [CHR 0x0A, CHR 0x09] @ ''return fmt.Sprint(inp.A * inp.B)'' @ [CHR 0x0A] @ ''}'' @
     [CHR 0x0A, CHR 0x0A] @ ''func helper() {}'' @ [CHR 0x0A]"

definition exampleTree :: dst_file where
  "exampleTree = \<lparr>Name = ''functions'', Decls = exampleDecls\<rparr>"

definition exampleParse :: "string \<Rightarrow> string + dst_file" where
  "exampleParse input = (if input = exampleInput then Inr exampleTree else Inl ''syntax error'')"

definition exampleLib :: "(generated list, decl list) library" where
  "exampleLib =
     \<lparr>Render = (\<lambda>g. Inr []),
      ParseFile = (\<lambda>src. Inr []),
      DecorateFile = (\<lambda>parsed. Inr parsed),
      RestoreFile = (\<lambda>f. Inr (Decls f)),
      Fprint = (\<lambda>ds. Inr (''package functions'' @ [CHR 0x0A])),
      formatSource = (\<lambda>src. Inr src)\<rparr>"

definition exampleMorning :: gotime where
  "exampleMorning = \<lparr>year = 2024, month = 7, day = 1, hour = 9, minute = 30, second = 0, nanosecond = 0\<rparr>"

definition exampleEvening :: gotime where
  "exampleEvening = \<lparr>year = 2024, month = 7, day = 1, hour = 21, minute = 30, second = 0, nanosecond = 0\<rparr>"

definition exampleMorningLater :: gotime where
  "exampleMorningLater = \<lparr>year = 2024, month = 7, day = 1, hour = 9, minute = 30, second = 0, nanosecond = 250\<rparr>"


section \<open>Properties\<close>

subsection \<open>Formatting\<close>

lemma digit_not_percent: "d < 10 \<Longrightarrow> digit d \<noteq> CHR ''%''"
proof -
  assume "d < 10"
  then have "digit d \<in> set ''0123456789''" unfolding digit_def by (intro nth_mem) simp
  then show ?thesis by auto
qed

lemma showNat_no_percent: "CHR ''%'' \<notin> set (showNat n)"
proof (induction n rule: showNat.induct)
  case (1 n)
  show ?case
  proof (cases "n < 10")
    case True
    then show ?thesis using digit_not_percent [of n] by (simp add: showNat.simps [of n])
  next
    case False
    then have "CHR ''%'' \<notin> set (showNat (n div 10))" using 1 by simp
    moreover have "digit (n mod 10) \<noteq> CHR ''%''" by (rule digit_not_percent) simp
    ultimately show ?thesis using False by (simp add: showNat.simps [of n])
  qed
qed

lemma scan_literal:
  "CHR ''%'' \<notin> set s \<Longrightarrow> scanFormat Literal (s @ rest) as = s @ scanFormat Literal rest as"
  by (induction s) auto


lemma Sprintf_wrapper: "Sprintf wrapperFunctionFormat [AString n] = n @ ''Wrapper''"
  by (simp add: Sprintf_def wrapperFunctionFormat_def fmtExtra_def)

lemma Sprintf_expected_gen:
  "Sprintf ''expected %d arguments, got %%d'' [AInt (int n)] =
     ''expected '' @ showNat n @ '' arguments, got %d''"
  by (simp add: Sprintf_def fmtExtra_def showInt_def)

lemma Sprintf_expected_run:
  "Sprintf (''expected '' @ showNat n @ '' arguments, got %d'') [AInt (int m)] =
     ''expected '' @ showNat n @ '' arguments, got '' @ showNat m"
proof -
  have "scanFormat Literal (showNat n @ '' arguments, got %d'') [AInt (int m)] =
          showNat n @ scanFormat Literal '' arguments, got %d'' [AInt (int m)]"
    by (rule scan_literal) (rule showNat_no_percent)
  then show ?thesis by (simp add: Sprintf_def fmtExtra_def showInt_def)
qed

subsection \<open>The generator's loops\<close>

lemma mapP_Inr: "mapP f xs = Inr ys \<Longrightarrow> list_all2 (\<lambda>x y. f x = Inr y) xs ys"
proof (induction xs arbitrary: ys)
  case Nil
  then show ?case by simp
next
  case (Cons x xs)
  then show ?case by (auto simp: bindP_def split: sum.splits)
qed

lemma server_case_keys:
  assumes "generateServerReceiver infos = Inr cases"
  shows "map caseKey cases = map OriginalIdentifier infos"
proof -
  have "list_all2 (\<lambda>fnInfo c. bindP (caseBodyOf fnInfo)
          (\<lambda>body. Inr \<lparr>caseKey = OriginalIdentifier fnInfo, caseBody = body\<rparr>) = Inr c) infos cases"
    using assms unfolding generateServerReceiver_def by (rule mapP_Inr)
  then have "list_all2 (\<lambda>fnInfo c. caseKey c = OriginalIdentifier fnInfo) infos cases"
    by (rule list_all2_mono) (auto simp: bindP_def split: sum.splits)
  then show ?thesis
    by (induction infos cases rule: list_all2_induct) auto
qed

lemma find_no_key: "f \<notin> set (map caseKey cases) \<Longrightarrow> find (\<lambda>c. caseKey c = f) cases = None"
  by (induction cases) auto

lemma generate_exampleGreet: "generateServerReceiver [exampleGreet] = Inr [exampleGreetCase]"
  by code_simp

lemma extract_names: "map OriginalIdentifier (extractFuncInfo up ds typeMap) = exportedNames up ds"
  by (induction up ds rule: exportedNames.induct) (simp_all add: funcInfoOf_def)

lemma client_pairs:
  assumes "mapP generateNewClientFunc infos = Inr pairs"
  shows "map (\<lambda>p. (proxyName (nativeProxy p), encodeName (nativeProxy p), wrapperName (bridgeWrapper p))) pairs =
         map (\<lambda>i. (OriginalIdentifier i, OriginalIdentifier i, OriginalIdentifier i @ ''Wrapper'')) infos"
proof -
  have "list_all2 (\<lambda>i p. generateNewClientFunc i = Inr p) infos pairs"
    using assms by (rule mapP_Inr)
  then have "list_all2 (\<lambda>i p. (proxyName (nativeProxy p), encodeName (nativeProxy p), wrapperName (bridgeWrapper p)) =
      (OriginalIdentifier i, OriginalIdentifier i, OriginalIdentifier i @ ''Wrapper'')) infos pairs"
    by (rule list_all2_mono)
       (auto simp: generateNewClientFunc_def bindP_def Let_def Sprintf_wrapper split: sum.splits)
  then show ?thesis
    by (induction infos pairs rule: list_all2_induct) auto
qed

lemma pairsOf_map: "pairsOf (map ClientFunc ps @ gs) = ps @ pairsOf gs"
  by (induction ps) auto

subsection \<open>Decimal numerals and the names of the result variables\<close>












lemma gen_format:
  "Sprintf (CHR 0x27 # ''%%+v'' @ CHR 0x27 # ''%s'') [AString s] = CHR 0x27 # ''%+v'' @ CHR 0x27 # s"
  by (simp add: Sprintf_def fmtExtra_def)






subsection \<open>Running the reply statements\<close>





subsection \<open>Decoding the parameters\<close>

lemma param_not_arg: "n @ ''Param'' \<noteq> m @ ''ParamArg''"
proof
  assume "n @ ''Param'' = m @ ''ParamArg''"
  then have "last (n @ ''Param'') = last (m @ ''ParamArg'')" by simp
  then show False by simp
qed

lemma param_not_ok: "n @ ''Param'' \<noteq> ''ok''"
proof
  assume "n @ ''Param'' = ''ok''"
  then have "length (n @ ''Param'') = length ''ok''" by simp
  then show False by simp
qed

lemma arg_not_ok: "n @ ''ParamArg'' \<noteq> ''ok''"
proof
  assume "n @ ''ParamArg'' = ''ok''"
  then have "length (n @ ''ParamArg'') = length ''ok''" by simp
  then show False by simp
qed

lemma decodes_block:
  assumes d: "decodes env args p x" and s: "paramStmts p = Inr ss"
  obtains n where "firstName (DstField p) = Inr n"
    and "\<And>rest vs cs. \<exists>vs'. execBlock env impl args (ss @ rest) vs cs = execBlock env impl args rest vs' cs \<and>
            vs' (n @ ''Param'') = Some (SVal x) \<and>
            (\<forall>y. y \<noteq> n @ ''Param'' \<and> y \<noteq> n @ ''ParamArg'' \<and> y \<noteq> ''ok'' \<longrightarrow> vs' y = vs y)"
proof -
  from d obtain n T arg where n: "firstName (DstField p) = Inr n" and T: "identName (Type (DstField p)) = Inr T"
    and a: "args n = Some arg" and prim: "\<not> IsStruct p" and ta: "typeAssert env (Value arg) T = Some x"
    unfolding decodes_def by (auto split: sum.splits option.splits)
  have ss: "ss = [IfArgMissing (n @ ''ParamArg'') n, IfCastFails (n @ ''Param'') (n @ ''ParamArg'') T]"
    using s n T prim unfolding paramStmts_def by (simp add: bindP_def Let_def)
  have "\<exists>vs'. execBlock env impl args (ss @ rest) vs cs = execBlock env impl args rest vs' cs \<and>
            vs' (n @ ''Param'') = Some (SVal x) \<and>
            (\<forall>y. y \<noteq> n @ ''Param'' \<and> y \<noteq> n @ ''ParamArg'' \<and> y \<noteq> ''ok'' \<longrightarrow> vs' y = vs y)" for rest vs cs
    unfolding ss using a ta arg_not_ok [of n] param_not_ok [of n]
    by (intro exI [of _ "vs(n @ ''ParamArg'' \<mapsto> SArg arg, ''ok'' \<mapsto> SVal (V goBool (PBool True)),
          n @ ''Param'' \<mapsto> SVal x, ''ok'' \<mapsto> SVal (V goBool (PBool True)))"]) auto
  then show ?thesis using that n by blast
qed

lemma params_decode:
  assumes "mapP paramStmts params = Inr pss"
    and "list_all2 (decodes env args) params xs"
    and "distinct (map (\<lambda>p. firstName (DstField p)) params)"
  shows "\<exists>vs'. execBlock env impl args (concat pss @ rest) vs cs = execBlock env impl args rest vs' cs \<and>
           (\<forall>k < length params. \<forall>n. firstName (DstField (params ! k)) = Inr n \<longrightarrow>
                vs' (n @ ''Param'') = Some (SVal (xs ! k))) \<and>
           (\<forall>y. (\<forall>p \<in> set params. \<forall>n. firstName (DstField p) = Inr n \<longrightarrow> y \<noteq> n @ ''Param'' \<and> y \<noteq> n @ ''ParamArg'') \<and>
                y \<noteq> ''ok'' \<longrightarrow> vs' y = vs y)"
  using assms
proof (induction params arbitrary: pss xs vs)
  case Nil
  then show ?case by (intro exI [of _ vs]) auto
next
  case (Cons p ps)
  from Cons.prems(1) obtain ss more where ss: "paramStmts p = Inr ss" and more: "mapP paramStmts ps = Inr more"
    and pss: "pss = ss # more"
    by (auto simp: bindP_def split: sum.splits)
  from Cons.prems(2) obtain x xs' where xs: "xs = x # xs'" and dx: "decodes env args p x"
    and rest2: "list_all2 (decodes env args) ps xs'"
    by (auto simp: list_all2_Cons1)
  have dist: "distinct (map (\<lambda>p. firstName (DstField p)) ps)"
    and notin: "firstName (DstField p) \<notin> (\<lambda>p. firstName (DstField p)) ` set ps"
    using Cons.prems(3) by auto
  from decodes_block [OF dx ss, where impl = impl] obtain n where n: "firstName (DstField p) = Inr n"
    and blk: "\<And>rest vs cs. \<exists>vs'. execBlock env impl args (ss @ rest) vs cs = execBlock env impl args rest vs' cs \<and>
            vs' (n @ ''Param'') = Some (SVal x) \<and>
            (\<forall>y. y \<noteq> n @ ''Param'' \<and> y \<noteq> n @ ''ParamArg'' \<and> y \<noteq> ''ok'' \<longrightarrow> vs' y = vs y)"
    by blast
  from blk [of "concat more @ rest" vs cs] obtain vs1 where
    s1: "execBlock env impl args (ss @ concat more @ rest) vs cs = execBlock env impl args (concat more @ rest) vs1 cs"
    and v1: "vs1 (n @ ''Param'') = Some (SVal x)"
    and f1: "\<forall>y. y \<noteq> n @ ''Param'' \<and> y \<noteq> n @ ''ParamArg'' \<and> y \<noteq> ''ok'' \<longrightarrow> vs1 y = vs y"
    by blast
  from Cons.IH [OF more rest2 dist, of vs1] obtain vs2 where
    s2: "execBlock env impl args (concat more @ rest) vs1 cs = execBlock env impl args rest vs2 cs"
    and v2: "\<forall>k < length ps. \<forall>m. firstName (DstField (ps ! k)) = Inr m \<longrightarrow> vs2 (m @ ''Param'') = Some (SVal (xs' ! k))"
    and f2: "\<forall>y. (\<forall>q \<in> set ps. \<forall>m. firstName (DstField q) = Inr m \<longrightarrow> y \<noteq> m @ ''Param'' \<and> y \<noteq> m @ ''ParamArg'') \<and>
                y \<noteq> ''ok'' \<longrightarrow> vs2 y = vs1 y"
    by blast
  have keep: "vs2 (n @ ''Param'') = vs1 (n @ ''Param'')"
  proof -
    have "\<forall>q \<in> set ps. \<forall>m. firstName (DstField q) = Inr m \<longrightarrow> n @ ''Param'' \<noteq> m @ ''Param'' \<and> n @ ''Param'' \<noteq> m @ ''ParamArg''"
      using notin n param_not_arg by (auto simp: image_iff)
    then show ?thesis using f2 param_not_ok [of n] by blast
  qed
  show ?case
  proof (intro exI [of _ vs2] conjI allI impI)
    show "execBlock env impl args (concat pss @ rest) vs cs = execBlock env impl args rest vs2 cs"
      using s1 s2 pss by simp
  next
    fix k m
    assume k: "k < length (p # ps)" and m: "firstName (DstField ((p # ps) ! k)) = Inr m"
    show "vs2 (m @ ''Param'') = Some (SVal (xs ! k))"
    proof (cases k)
      case 0
      then show ?thesis using m n keep v1 xs by simp
    next
      case (Suc k')
      then show ?thesis using k m v2 xs by simp
    qed
  next
    fix y
    assume y: "(\<forall>q \<in> set (p # ps). \<forall>m. firstName (DstField q) = Inr m \<longrightarrow> y \<noteq> m @ ''Param'' \<and> y \<noteq> m @ ''ParamArg'') \<and> y \<noteq> ''ok''"
    then have "vs2 y = vs1 y" using f2 by simp
    moreover have "vs1 y = vs y" using f1 y n by simp
    ultimately show "vs2 y = vs y" by simp
  qed
qed

lemma find_case:
  assumes "generateServerReceiver infos = Inr cases"
    and "find (\<lambda>i. OriginalIdentifier i = name) infos = Some fnInfo"
  shows "\<exists>body. caseBodyOf fnInfo = Inr body \<and>
           find (\<lambda>c. caseKey c = name) cases = Some \<lparr>caseKey = name, caseBody = body\<rparr>"
proof -
  have "list_all2 (\<lambda>i c. bindP (caseBodyOf i) (\<lambda>body. Inr \<lparr>caseKey = OriginalIdentifier i, caseBody = body\<rparr>) = Inr c) infos cases"
    using assms(1) unfolding generateServerReceiver_def by (rule mapP_Inr)
  then have "list_all2 (\<lambda>i c. \<exists>body. caseBodyOf i = Inr body \<and> c = \<lparr>caseKey = OriginalIdentifier i, caseBody = body\<rparr>) infos cases"
    by (rule list_all2_mono) (auto simp: bindP_def split: sum.splits)
  then show ?thesis using assms(2)
  proof (induction infos cases rule: list_all2_induct)
    case Nil
    then show ?case by simp
  next
    case (Cons i infos' c cases')
    then show ?case by (auto split: if_splits)
  qed
qed

lemma caseBody_parts:
  assumes "caseBodyOf fnInfo = Inr body"
  shows "\<exists>defs pss reply. body = defs @ concat pss @ reply \<and>
           mapP paramStmts (Params fnInfo) = Inr pss \<and> replyStmts fnInfo = Inr reply \<and>
           (defs = [] \<or> (\<exists>ds. defs = [VarDefs ds]))"
  using assms unfolding caseBodyOf_def
  by (auto simp: bindP_def split: sum.splits if_splits)







subsection \<open>Variables that are declared and not used\<close>















subsection \<open>An unregistered function name\<close>

text \<open>
  Claim C4. When the payload decodes (without error) to a function name that is the name
  of no catalog entry, the dispatcher generated from the catalog returns the empty reply
  with the error \<open>unknown function '<name>'\<close>, whose message contains the name, and it
  has invoked no implementation: the list of calls is empty.
\<close>

theorem unknown_function_errors:
  assumes gen: "generateServerReceiver infos = Inr cases"
    and dec: "decode data = (functionName, args, VNil)"
    and unknown: "functionName \<notin> set (map OriginalIdentifier infos)"
  shows "AgrowsReceive env decode impl cases data =
           (Returned [] (errorsNew (''unknown function '' @ [CHR 0x27] @ functionName @ [CHR 0x27])), [])"
proof -
  have "functionName \<notin> set (map caseKey cases)"
    using unknown server_case_keys [OF gen] by simp
  then have "find (\<lambda>c. caseKey c = functionName) cases = None" by (rule find_no_key)
  then show ?thesis
    using dec by (simp add: AgrowsReceive_def Sprintf_def fmtExtra_def)
qed

theorem unknown_function_errors_witness:
  "AgrowsReceive exampleEnv exampleDecode exampleImpl [exampleGreetCase] (''Greeet'', Map.empty) =
     (Returned [] (errorsNew (''unknown function 'Greeet'' @ [CHR 0x27])), [])"
proof -
  have g: "generateServerReceiver [exampleGreet] = Inr [exampleGreetCase]"
    by (rule generate_exampleGreet)
  have d: "exampleDecode (''Greeet'', Map.empty) = (''Greeet'', Map.empty, VNil)"
    by (simp add: exampleDecode_def)
  have u: "''Greeet'' \<notin> set (map OriginalIdentifier [exampleGreet])"
    by (simp add: exampleGreet_def)
  show ?thesis
    using unknown_function_errors [where decode = exampleDecode and data = "(''Greeet'', Map.empty)"
        and env = exampleEnv and impl = exampleImpl, OF g d u]
    by simp
qed

subsection \<open>One dispatch case and one stub pair per exported function\<close>

text \<open>
  Claim C1. Whenever the generator produces its output for a file, the switch of the
  server dispatcher has one case per exported function declaration, keyed by the exact
  name of that function as a string literal, and the cases stand in declaration order:
  the list of case keys is the list of exported names. The client output has one stub
  pair per exported function declaration, in the same order: a native proxy with the
  function's name, which encodes that name as the wire-level string, and a bridge
  wrapper named after it. Hence, the names of a catalog being distinct, each name keys
  exactly one case and has exactly one stub pair.
\<close>

theorem one_case_and_one_stub_pair_per_function:
  "(generateFile SERVER (extractFuncInfo up ds typeMap) = Inr server \<longrightarrow>
      map caseKey (casesOf server) = exportedNames up ds) \<and>
   (generateFile CLIENT (extractFuncInfo up ds typeMap) = Inr client \<longrightarrow>
      map (\<lambda>p. (proxyName (nativeProxy p), encodeName (nativeProxy p), wrapperName (bridgeWrapper p)))
          (pairsOf client) =
      map (\<lambda>n. (n, n, n @ ''Wrapper'')) (exportedNames up ds)) \<and>
   (generateFile SERVER (extractFuncInfo up ds typeMap) = Inr server \<and>
    generateFile CLIENT (extractFuncInfo up ds typeMap) = Inr client \<and>
    distinct (exportedNames up ds) \<longrightarrow>
      (\<forall>n \<in> set (exportedNames up ds).
         length (filter (\<lambda>c. caseKey c = n) (casesOf server)) = 1 \<and>
         length (filter (\<lambda>p. proxyName (nativeProxy p) = n) (pairsOf client)) = 1))"
proof -
  let ?infos = "extractFuncInfo up ds typeMap"
  have names: "map OriginalIdentifier ?infos = exportedNames up ds" by (rule extract_names)
  have srv: "map caseKey (casesOf server) = exportedNames up ds"
    if "generateFile SERVER ?infos = Inr server" for server
  proof -
    from that obtain cases where c: "generateServerReceiver ?infos = Inr cases"
      and s: "server = [ServerReceiver cases]"
      by (auto simp: generateFile_def bindP_def split: sum.splits)
    show ?thesis using server_case_keys [OF c] names s by simp
  qed
  have cli: "map (\<lambda>p. (proxyName (nativeProxy p), encodeName (nativeProxy p), wrapperName (bridgeWrapper p)))
          (pairsOf client) = map (\<lambda>n. (n, n, n @ ''Wrapper'')) (exportedNames up ds)"
    if "generateFile CLIENT ?infos = Inr client" for client
  proof -
    from that obtain pairs regs where p: "mapP generateNewClientFunc ?infos = Inr pairs"
      and s: "client = [JsValueToAny] @ map ClientFunc pairs @ [JSSendMessageFunction, ClientMain regs]"
      by (auto simp: generateFile_def bindP_def split: sum.splits)
    have "pairsOf client = pairs" using s by (simp add: pairsOf_map)
    moreover have "map (\<lambda>i. (OriginalIdentifier i, OriginalIdentifier i, OriginalIdentifier i @ ''Wrapper'')) ?infos
        = map (\<lambda>n. (n, n, n @ ''Wrapper'')) (map OriginalIdentifier ?infos)"
      by simp
    ultimately show ?thesis using client_pairs [OF p] names by simp
  qed
  have one: "length (filter (\<lambda>x. f x = n) xs) = 1" if "distinct (map f xs)" "n \<in> set (map f xs)"
    for f :: "'b \<Rightarrow> string" and n xs
    using that by (induction xs) (auto simp: filter_empty_conv image_iff)
  show ?thesis
  proof (intro conjI impI ballI)
    assume "generateFile SERVER ?infos = Inr server"
    then show "map caseKey (casesOf server) = exportedNames up ds" by (rule srv)
  next
    assume "generateFile CLIENT ?infos = Inr client"
    then show "map (\<lambda>p. (proxyName (nativeProxy p), encodeName (nativeProxy p), wrapperName (bridgeWrapper p)))
          (pairsOf client) = map (\<lambda>n. (n, n, n @ ''Wrapper'')) (exportedNames up ds)" by (rule cli)
  next
    fix n
    assume h: "generateFile SERVER ?infos = Inr server \<and> generateFile CLIENT ?infos = Inr client \<and>
      distinct (exportedNames up ds)" and n: "n \<in> set (exportedNames up ds)"
    show "length (filter (\<lambda>c. caseKey c = n) (casesOf server)) = 1"
      using one [of caseKey "casesOf server" n] srv h n by simp
  next
    fix n
    assume h: "generateFile SERVER ?infos = Inr server \<and> generateFile CLIENT ?infos = Inr client \<and>
      distinct (exportedNames up ds)" and n: "n \<in> set (exportedNames up ds)"
    have "map (\<lambda>p. proxyName (nativeProxy p)) (pairsOf client) = exportedNames up ds"
    proof -
      have "map fst (map (\<lambda>p. (proxyName (nativeProxy p), encodeName (nativeProxy p), wrapperName (bridgeWrapper p)))
          (pairsOf client)) = map fst (map (\<lambda>n. (n, n, n @ ''Wrapper'')) (exportedNames up ds))"
        using cli h by simp
      then show ?thesis by (simp add: comp_def)
    qed
    then show "length (filter (\<lambda>p. proxyName (nativeProxy p) = n) (pairsOf client)) = 1"
      using one [of "\<lambda>p. proxyName (nativeProxy p)" "pairsOf client" n] h n by simp
  qed
qed

lemma ex_server: "generateFile SERVER (extractFuncInfo exampleUpper exampleDecls exampleTypeMap) = Inr exampleServer"
  unfolding exampleServer_def by code_simp

lemma ex_client: "generateFile CLIENT (extractFuncInfo exampleUpper exampleDecls exampleTypeMap) = Inr exampleClient"
  unfolding exampleClient_def by code_simp

lemma ex_names: "exportedNames exampleUpper exampleDecls = [''SayHello'', ''CrazyMath'']"
  by code_simp

theorem one_case_and_one_stub_pair_per_function_witness:
  "generateFile SERVER (extractFuncInfo exampleUpper exampleDecls exampleTypeMap) = Inr exampleServer \<and>
   generateFile CLIENT (extractFuncInfo exampleUpper exampleDecls exampleTypeMap) = Inr exampleClient \<and>
   distinct (exportedNames exampleUpper exampleDecls) \<and>
   map caseKey (casesOf exampleServer) = [''SayHello'', ''CrazyMath''] \<and>
   map (\<lambda>p. (proxyName (nativeProxy p), encodeName (nativeProxy p), wrapperName (bridgeWrapper p)))
       (pairsOf exampleClient) =
     [(''SayHello'', ''SayHello'', ''SayHelloWrapper''), (''CrazyMath'', ''CrazyMath'', ''CrazyMathWrapper'')] \<and>
   length (filter (\<lambda>c. caseKey c = ''CrazyMath'') (casesOf exampleServer)) = 1 \<and>
   length (filter (\<lambda>p. proxyName (nativeProxy p) = ''CrazyMath'') (pairsOf exampleClient)) = 1"
  using one_case_and_one_stub_pair_per_function [of exampleUpper exampleDecls exampleTypeMap exampleServer exampleClient]
    ex_server ex_client
  by (simp add: ex_names)

subsection \<open>Numeric conversion\<close>

lemma truncate_towards_zero:
  "\<bar>of_int (truncateFloat r)\<bar> \<le> \<bar>r\<bar> \<and> \<bar>r - of_int (truncateFloat r)\<bar> < 1"
proof (cases "0 \<le> r")
  case True
  have eq: "truncateFloat r = \<lfloor>r\<rfloor>" using True by (simp add: truncateFloat_def)
  have "0 \<le> \<lfloor>r\<rfloor>" using True by simp
  then have a: "(0::rat) \<le> of_int \<lfloor>r\<rfloor>" by simp
  have b: "of_int \<lfloor>r\<rfloor> \<le> r" by (rule of_int_floor_le)
  have c: "r < of_int \<lfloor>r\<rfloor> + 1" by linarith
  show ?thesis unfolding eq using a b c by (intro conjI) linarith+
next
  case False
  have eq: "truncateFloat r = \<lceil>r\<rceil>" using False by (simp add: truncateFloat_def)
  have "\<lceil>r\<rceil> \<le> 0" using False by (simp add: ceiling_le_iff)
  then have a: "of_int \<lceil>r\<rceil> \<le> (0::rat)" by simp
  have b: "r \<le> of_int \<lceil>r\<rceil>" by (rule le_of_int_ceiling)
  have c: "of_int \<lceil>r\<rceil> < r + 1" by linarith
  show ?thesis unfolding eq using a b c False by (intro conjI) linarith+
qed

lemma truncate_37: "truncateFloat (37 / 10) = 3"
  unfolding truncateFloat_def by (simp add: floor_eq_iff)

text \<open>
  Claim C6. On a bridge number the conversion routine looks at the kind of the target
  type. For the five signed integer kinds it returns the integer read \<open>v.Int()\<close>, for
  the five unsigned kinds that integer converted to \<open>uint\<close>, and for every other kind
  (the floating kinds and any kind that is not numeric) the number itself, unchanged.
  The integer read of a finite number whose truncation a 64-bit int represents is that
  truncation: the integer towards zero, less than one away. So 3.7 against an
  \<open>int32\<close> target gives 3, and against a floating target gives 3.7.
\<close>

theorem numeric_conversion_by_kind:
  "(kindOf t \<in> {KInt, KInt8, KInt16, KInt32, KInt64} \<longrightarrow>
      jsValueToAny env json (JSNumber x) t = (V goInt (PInt (Value_Int env x)), VNil)) \<and>
   (kindOf t \<in> {KUint, KUint8, KUint16, KUint32, KUint64} \<longrightarrow>
      jsValueToAny env json (JSNumber x) t = (V goUint (PInt (uint_of (Value_Int env x))), VNil)) \<and>
   (kindOf t \<notin> {KInt, KInt8, KInt16, KInt32, KInt64, KUint, KUint8, KUint16, KUint32, KUint64} \<longrightarrow>
      jsValueToAny env json (JSNumber x) t = (V goFloat64 (PFloat x), VNil)) \<and>
   (- (2 ^ 63) \<le> truncateFloat r \<and> truncateFloat r < 2 ^ 63 \<longrightarrow>
      Value_Int env (Num r) = truncateFloat r \<and>
      \<bar>of_int (truncateFloat r)\<bar> \<le> \<bar>r\<bar> \<and> \<bar>r - of_int (truncateFloat r)\<bar> < 1)"
proof (intro conjI impI)
  assume "kindOf t \<in> {KInt, KInt8, KInt16, KInt32, KInt64}"
  then show "jsValueToAny env json (JSNumber x) t = (V goInt (PInt (Value_Int env x)), VNil)"
    by simp
next
  assume "kindOf t \<in> {KUint, KUint8, KUint16, KUint32, KUint64}"
  then show "jsValueToAny env json (JSNumber x) t = (V goUint (PInt (uint_of (Value_Int env x))), VNil)"
    by auto
next
  assume "kindOf t \<notin> {KInt, KInt8, KInt16, KInt32, KInt64, KUint, KUint8, KUint16, KUint32, KUint64}"
  then show "jsValueToAny env json (JSNumber x) t = (V goFloat64 (PFloat x), VNil)"
    by simp
next
  assume "- (2 ^ 63) \<le> truncateFloat r \<and> truncateFloat r < 2 ^ 63"
  then show "Value_Int env (Num r) = truncateFloat r" by (simp add: Value_Int_def)
next
  show "\<bar>of_int (truncateFloat r)\<bar> \<le> \<bar>r\<bar>" using truncate_towards_zero by blast
next
  show "\<bar>r - of_int (truncateFloat r)\<bar> < 1" using truncate_towards_zero by blast
qed

theorem numeric_conversion_by_kind_witness:
  "jsValueToAny exampleEnv exampleJson (JSNumber (Num (37 / 10))) (GoType ''int32'' KInt32) =
     (V goInt (PInt 3), VNil) \<and>
   jsValueToAny exampleEnv exampleJson (JSNumber (Num (37 / 10))) (GoType ''uint8'' KUint8) =
     (V goUint (PInt 3), VNil) \<and>
   jsValueToAny exampleEnv exampleJson (JSNumber (Num (37 / 10))) (GoType ''float64'' KFloat64) =
     (V goFloat64 (PFloat (Num (37 / 10))), VNil) \<and>
   jsValueToAny exampleEnv exampleJson (JSNumber (Num (37 / 10))) (GoType ''string'' KString) =
     (V goFloat64 (PFloat (Num (37 / 10))), VNil) \<and>
   Value_Int exampleEnv (Num (37 / 10)) = 3"
  using numeric_conversion_by_kind [of "GoType ''int32'' KInt32" exampleEnv exampleJson "Num (37 / 10)" "37 / 10"]
    numeric_conversion_by_kind [of "GoType ''uint8'' KUint8" exampleEnv exampleJson "Num (37 / 10)" "37 / 10"]
    numeric_conversion_by_kind [of "GoType ''float64'' KFloat64" exampleEnv exampleJson "Num (37 / 10)" "37 / 10"]
    numeric_conversion_by_kind [of "GoType ''string'' KString" exampleEnv exampleJson "Num (37 / 10)" "37 / 10"]
  by (simp add: truncate_37 uint_of_def)

subsection \<open>Arity check of the bridge wrapper\<close>

text \<open>
  Claim C5. The bridge wrapper generated for a catalog function with \<open>N\<close> parameters,
  called with an argument array whose length is not \<open>N\<close> (so in particular \<open>N - 1\<close>
  or \<open>N + 1\<close>), returns the bridge error \<open>expected N arguments, got M\<close>, which names
  both counts, and the list of calls is empty: neither the native proxy nor anything
  else has been called.
\<close>

theorem arity_mismatch_errors:
  assumes gen: "generateNewClientFunc info = Inr pair"
    and len: "length p \<noteq> length (Params info)"
  shows "callWrapper env json native (bridgeWrapper pair) p =
           (WReturned (jsError (''expected '' @ showNat (length (Params info)) @
                                '' arguments, got '' @ showNat (length p))), [])"
proof -
  obtain conv as where body:
    "wrapperBody (bridgeWrapper pair) =
       [IfLenMismatch (length (Params info))
          (Sprintf ''expected %d arguments, got %%d'' [AInt (int (length (Params info)))])] @
       conv @ [ReturnCall (OriginalIdentifier info) (concat as)]"
    using gen unfolding generateNewClientFunc_def
    by (auto simp: bindP_def Let_def split: sum.splits)
  have stop: "wexecBlock env json native p ([IfLenMismatch (length (Params info)) F] @ rest) Map.empty [] =
                (WReturned (jsError (Sprintf F [AInt (int (length p))])), [])" for F rest
    using len by simp
  show ?thesis
    unfolding callWrapper_def body stop Sprintf_expected_gen Sprintf_expected_run ..
qed

lemma generate_exampleGreetPair: "generateNewClientFunc exampleGreet = Inr exampleGreetPair"
  unfolding exampleGreetPair_def by code_simp

theorem arity_mismatch_errors_witness:
  "callWrapper exampleEnv exampleJson exampleNative (bridgeWrapper exampleGreetPair) [] =
     (WReturned (jsError ''expected 1 arguments, got 0''), []) \<and>
   callWrapper exampleEnv exampleJson exampleNative (bridgeWrapper exampleGreetPair)
       [JSString ''Ada'', JSString ''Bob''] =
     (WReturned (jsError ''expected 1 arguments, got 2''), [])"
proof -
  have n: "length (Params exampleGreet) = 1" by (simp add: exampleGreet_def)
  have d: "showNat 0 = ''0''" "showNat (Suc 0) = ''1''" "showNat (Suc (Suc 0)) = ''2''"
    by (simp_all add: showNat.simps digit_def)
  show ?thesis
    using arity_mismatch_errors [OF generate_exampleGreetPair, of "[]" exampleEnv exampleJson exampleNative]
      arity_mismatch_errors [OF generate_exampleGreetPair, of "[JSString ''Ada'', JSString ''Bob'']"
        exampleEnv exampleJson exampleNative]
    by (simp add: n d)
qed

subsection \<open>The integer width is erased by the conversion\<close>

lemma assert_int_other_width:
  assumes "kindOf (resolve env T) \<in> {KInt8, KInt16, KInt32, KInt64}"
  shows "typeAssert env (V goInt pl) T = None"
proof -
  obtain nm k where r: "resolve env T = GoType nm k" by (cases "resolve env T")
  then show ?thesis using assms by (auto simp: typeAssert_def Let_def goInt_def)
qed

lemma assert_uint_other_width:
  assumes "kindOf (resolve env T) \<in> {KUint8, KUint16, KUint32, KUint64}"
  shows "typeAssert env (V goUint pl) T = None"
proof -
  obtain nm k where r: "resolve env T = GoType nm k" by (cases "resolve env T")
  then show ?thesis using assms by (auto simp: typeAssert_def Let_def goUint_def)
qed

lemma asAny_not_err: "n @ ''AsAny'' \<noteq> ''err''"
proof
  assume "n @ ''AsAny'' = ''err''"
  then have "length (n @ ''AsAny'') = length ''err''" by simp
  then show False by simp
qed

lemma wrapperParam_shape:
  assumes "wrapperParam i pinfo = Inr ss"
  shows "ss = [] \<or>
         (\<exists>n T f m. ss = [ConvertParam (n @ ''AsAny'') i T, IfConvErr f, AssertParam n (n @ ''AsAny'') T, IfNotOk m] \<and>
                     firstName (DstField pinfo) = Inr n \<and> identName (Type (DstField pinfo)) = Inr T)"
  using assms unfolding wrapperParam_def
  by (auto simp: bindP_def Let_def split: sum.splits if_splits)

lemma param_block_progress:
  assumes ss: "wrapperParam i pinfo = Inr ss" and i: "i < length p"
  shows "(\<exists>m. wexecBlock env json native p (ss @ rest) vs cs = (WReturned (jsError m), cs)) \<or>
         (\<exists>vs'. wexecBlock env json native p (ss @ rest) vs cs = wexecBlock env json native p rest vs' cs)"
proof -
  from wrapperParam_shape [OF ss] show ?thesis
  proof
    assume "ss = []"
    then show ?thesis by auto
  next
    assume "\<exists>n T f m. ss = [ConvertParam (n @ ''AsAny'') i T, IfConvErr f, AssertParam n (n @ ''AsAny'') T, IfNotOk m] \<and>
                     firstName (DstField pinfo) = Inr n \<and> identName (Type (DstField pinfo)) = Inr T"
    then obtain n T f m where
      s: "ss = [ConvertParam (n @ ''AsAny'') i T, IfConvErr f, AssertParam n (n @ ''AsAny'') T, IfNotOk m]"
      by blast
    obtain x err where conv: "jsValueToAny env json (p ! i) (resolve env T) = (x, err)"
      by (cases "jsValueToAny env json (p ! i) (resolve env T)")
    show ?thesis
    proof (cases "err = VNil")
      case False
      then show ?thesis using s i conv by auto
    next
      case True
      show ?thesis
      proof (cases "typeAssert env x T")
        case None
        then show ?thesis using s i conv True asAny_not_err [of n] by auto
      next
        case (Some y)
        then show ?thesis using s i conv True asAny_not_err [of n] by auto
      qed
    qed
  qed
qed

lemma bad_param_block:
  assumes ss: "wrapperParam i pinfo = Inr ss" and i: "i < length p"
    and named: "firstName (DstField pinfo) = Inr n"
    and typed: "identName (Type (DstField pinfo)) = Inr T"
    and num: "p ! i = JSNumber x"
    and width: "kindOf (resolve env T) \<in> {KInt8, KInt16, KInt32, KInt64, KUint8, KUint16, KUint32, KUint64}"
  shows "wexecBlock env json native p (ss @ rest) vs cs =
           (WReturned (jsError (Sprintf (Sprintf (''parameter '%s' is not in the received arguments'') [AString n]) [])), cs)"
proof -
  have nonempty: "length (Names (DstField pinfo)) > 0"
    using named by (auto simp: firstName_def split: list.splits)
  have s: "ss = [ConvertParam (n @ ''AsAny'') i T,
                 IfConvErr (Sprintf (''failed to make go type '%s' from js value: %%+v'') [AString T]),
                 AssertParam n (n @ ''AsAny'') T,
                 IfNotOk (Sprintf (''parameter '%s' is not in the received arguments'') [AString n])]"
    using ss named typed nonempty unfolding wrapperParam_def by (simp add: bindP_def Let_def)
  from width consider
    (signed) "kindOf (resolve env T) \<in> {KInt8, KInt16, KInt32, KInt64}"
    | (unsigned) "kindOf (resolve env T) \<in> {KUint8, KUint16, KUint32, KUint64}"
    by auto
  then show ?thesis
  proof cases
    case signed
    then have conv: "jsValueToAny env json (JSNumber x) (resolve env T) = (V goInt (PInt (Value_Int env x)), VNil)"
      by auto
    show ?thesis
      unfolding s using i num conv assert_int_other_width [OF signed] asAny_not_err [of n]
      by simp
  next
    case unsigned
    then have conv: "jsValueToAny env json (JSNumber x) (resolve env T) =
        (V goUint (PInt (uint_of (Value_Int env x))), VNil)"
      by auto
    show ?thesis
      unfolding s using i num conv assert_uint_other_width [OF unsigned] asAny_not_err [of n]
      by simp
  qed
qed

lemma wrapperParams_stop:
  assumes "wrapperParams i ps = Inr conv"
    and "j < length ps" and "i + length ps \<le> length p"
    and "firstName (DstField (ps ! j)) = Inr n"
    and "identName (Type (DstField (ps ! j))) = Inr T"
    and "p ! (i + j) = JSNumber x"
    and "kindOf (resolve env T) \<in> {KInt8, KInt16, KInt32, KInt64, KUint8, KUint16, KUint32, KUint64}"
  shows "\<exists>m. wexecBlock env json native p (conv @ rest) vs cs = (WReturned (jsError m), cs)"
  using assms
proof (induction ps arbitrary: i j conv vs)
  case Nil
  then show ?case by simp
next
  case (Cons q qs)
  from Cons.prems(1) obtain ss more where
    ss: "wrapperParam i q = Inr ss" and more: "wrapperParams (Suc i) qs = Inr more"
    and conv: "conv = ss @ more"
    by (auto simp: bindP_def split: sum.splits)
  have i: "i < length p" using Cons.prems(3) by simp
  show ?case
  proof (cases j)
    case 0
    then show ?thesis
      using bad_param_block [OF ss i, of n T x env json native "more @ rest" vs cs] Cons.prems conv
      by auto
  next
    case (Suc j')
    from param_block_progress [OF ss i, of env json native "more @ rest" vs cs]
    show ?thesis
    proof
      assume "\<exists>m. wexecBlock env json native p (ss @ more @ rest) vs cs = (WReturned (jsError m), cs)"
      then show ?thesis using conv by simp
    next
      assume "\<exists>vs'. wexecBlock env json native p (ss @ more @ rest) vs cs =
                wexecBlock env json native p (more @ rest) vs' cs"
      then obtain vs' where step: "wexecBlock env json native p (ss @ more @ rest) vs cs =
                wexecBlock env json native p (more @ rest) vs' cs" by blast
      have "\<exists>m. wexecBlock env json native p (more @ rest) vs' cs = (WReturned (jsError m), cs)"
        using Cons.IH [OF more, of j' vs'] Cons.prems Suc by simp
      then show ?thesis using step conv by simp
    qed
  qed
qed

lemma mapP_nth: "mapP f xs = Inr ys \<Longrightarrow> j < length xs \<Longrightarrow> f (xs ! j) = Inr (ys ! j)"
  by (drule mapP_Inr) (simp add: list_all2_conv_all_nth)


text \<open>
  Claim C9. For every bridge number the conversion routine returns a value of dynamic
  type \<open>int\<close> when the target kind is any signed integer kind, and of dynamic type
  \<open>uint\<close> when it is any unsigned integer kind: the width of the target is lost. The
  assertion of that value to a parameter type whose kind is an integer kind of another
  width (\<open>int8\<close> .. \<open>int64\<close>, \<open>uint8\<close> .. \<open>uint64\<close>) therefore fails; and a wrapper
  that has such a parameter, called with the right number of arguments and a number in
  that position, returns a bridge error and calls nothing.
\<close>

theorem integer_width_erased:
  "(kindOf t \<in> {KInt, KInt8, KInt16, KInt32, KInt64} \<longrightarrow>
      dynType (fst (jsValueToAny env json (JSNumber x) t)) = Some goInt) \<and>
   (kindOf t \<in> {KUint, KUint8, KUint16, KUint32, KUint64} \<longrightarrow>
      dynType (fst (jsValueToAny env json (JSNumber x) t)) = Some goUint) \<and>
   (kindOf (resolve env T) \<in> {KInt8, KInt16, KInt32, KInt64, KUint8, KUint16, KUint32, KUint64} \<longrightarrow>
      typeAssert env (fst (jsValueToAny env json (JSNumber x) (resolve env T))) T = None) \<and>
   (generateNewClientFunc info = Inr pair \<and> length p = length (Params info) \<and> j < length (Params info) \<and>
    Type (DstField (Params info ! j)) = Ident T \<and> p ! j = JSNumber x \<and>
    kindOf (resolve env T) \<in> {KInt8, KInt16, KInt32, KInt64, KUint8, KUint16, KUint32, KUint64} \<longrightarrow>
      snd (callWrapper env json native (bridgeWrapper pair) p) = [] \<and>
      (\<exists>m. fst (callWrapper env json native (bridgeWrapper pair) p) = WReturned (jsError m)))"
proof (intro conjI impI)
  assume "kindOf t \<in> {KInt, KInt8, KInt16, KInt32, KInt64}"
  then show "dynType (fst (jsValueToAny env json (JSNumber x) t)) = Some goInt" by simp
next
  assume "kindOf t \<in> {KUint, KUint8, KUint16, KUint32, KUint64}"
  then show "dynType (fst (jsValueToAny env json (JSNumber x) t)) = Some goUint" by auto
next
  assume "kindOf (resolve env T) \<in> {KInt8, KInt16, KInt32, KInt64, KUint8, KUint16, KUint32, KUint64}"
  then consider
    (signed) "kindOf (resolve env T) \<in> {KInt8, KInt16, KInt32, KInt64}"
    | (unsigned) "kindOf (resolve env T) \<in> {KUint8, KUint16, KUint32, KUint64}"
    by auto
  then show "typeAssert env (fst (jsValueToAny env json (JSNumber x) (resolve env T))) T = None"
  proof cases
    case signed
    then have "fst (jsValueToAny env json (JSNumber x) (resolve env T)) = V goInt (PInt (Value_Int env x))"
      by auto
    then show ?thesis using assert_int_other_width [OF signed] by simp
  next
    case unsigned
    then have "fst (jsValueToAny env json (JSNumber x) (resolve env T)) = V goUint (PInt (uint_of (Value_Int env x)))"
      by auto
    then show ?thesis using assert_uint_other_width [OF unsigned] by simp
  qed
next
  assume h: "generateNewClientFunc info = Inr pair \<and> length p = length (Params info) \<and> j < length (Params info) \<and>
    Type (DstField (Params info ! j)) = Ident T \<and> p ! j = JSNumber x \<and>
    kindOf (resolve env T) \<in> {KInt8, KInt16, KInt32, KInt64, KUint8, KUint16, KUint32, KUint64}"
  then obtain entries conv as where
    enc: "mapP encodeArg (Params info) = Inr entries"
    and conv: "wrapperParams 0 (Params info) = Inr conv"
    and body: "wrapperBody (bridgeWrapper pair) =
       [IfLenMismatch (length (Params info))
          (Sprintf ''expected %d arguments, got %%d'' [AInt (int (length (Params info)))])] @
       conv @ [ReturnCall (OriginalIdentifier info) (concat as)]"
    unfolding generateNewClientFunc_def
    by (auto simp: bindP_def Let_def split: sum.splits)
  have "encodeArg (Params info ! j) = Inr (entries ! j)" using mapP_nth [OF enc] h by simp
  then obtain n where n: "firstName (DstField (Params info ! j)) = Inr n"
    by (auto simp: encodeArg_def bindP_def split: sum.splits)
  have T: "identName (Type (DstField (Params info ! j))) = Inr T" using h by (simp add: identName_def)
  obtain m where stop: "wexecBlock env json native p (conv @ [ReturnCall (OriginalIdentifier info) (concat as)]) Map.empty [] =
      (WReturned (jsError m), [])"
    using wrapperParams_stop [OF conv, of j p n T x env json native
        "[ReturnCall (OriginalIdentifier info) (concat as)]" Map.empty "[]"] h n T
    by auto
  have run: "callWrapper env json native (bridgeWrapper pair) p = (WReturned (jsError m), [])"
    unfolding callWrapper_def body using h stop by simp
  show "snd (callWrapper env json native (bridgeWrapper pair) p) = []" using run by simp
  show "\<exists>m. fst (callWrapper env json native (bridgeWrapper pair) p) = WReturned (jsError m)"
    using run by auto
qed

lemma generate_exampleResizePair: "generateNewClientFunc exampleResize = Inr exampleResizePair"
  unfolding exampleResizePair_def by code_simp

lemma resize_run:
  "callWrapper exampleEnv exampleJson exampleNative (bridgeWrapper exampleResizePair)
      [JSString ''logo'', JSNumber (Num 640)] =
     (WReturned (jsError (''parameter 'width' is not in the received arguments'')), [])"
  by code_simp

lemma resize_conv:
  "jsValueToAny exampleEnv exampleJson (JSNumber (Num 640)) (GoType ''int32'' KInt32) = (V goInt (PInt 640), VNil)"
  by code_simp

theorem integer_width_erased_witness:
  "dynType (fst (jsValueToAny exampleEnv exampleJson (JSNumber (Num 640)) (GoType ''int32'' KInt32))) = Some goInt \<and>
   dynType (fst (jsValueToAny exampleEnv exampleJson (JSNumber (Num 640)) (GoType ''uint8'' KUint8))) = Some goUint \<and>
   typeAssert exampleEnv (V goInt (PInt 640)) ''int32'' = None \<and>
   callWrapper exampleEnv exampleJson exampleNative (bridgeWrapper exampleResizePair)
      [JSString ''logo'', JSNumber (Num 640)] =
     (WReturned (jsError (''parameter 'width' is not in the received arguments'')), [])"
proof -
  have r: "resolve exampleEnv ''int32'' = GoType ''int32'' KInt32"
    by (simp add: exampleEnv_def exampleResolve_def)
  have a: "generateNewClientFunc exampleResize = Inr exampleResizePair \<and>
      length [JSString ''logo'', JSNumber (Num 640)] = length (Params exampleResize) \<and>
      1 < length (Params exampleResize) \<and>
      Type (DstField (Params exampleResize ! 1)) = Ident ''int32'' \<and>
      [JSString ''logo'', JSNumber (Num 640)] ! 1 = JSNumber (Num 640) \<and>
      kindOf (resolve exampleEnv ''int32'') \<in> {KInt8, KInt16, KInt32, KInt64, KUint8, KUint16, KUint32, KUint64}"
    using generate_exampleResizePair by (simp add: exampleResize_def r)
  show ?thesis
    using integer_width_erased [of "GoType ''int32'' KInt32" exampleEnv exampleJson "Num 640" "''int32''"
        exampleResize exampleResizePair "[JSString ''logo'', JSNumber (Num 640)]" 1 exampleNative]
      integer_width_erased [of "GoType ''uint8'' KUint8" exampleEnv exampleJson "Num 640" "''int32''"
        exampleResize exampleResizePair "[JSString ''logo'', JSNumber (Num 640)]" 1 exampleNative]
      a resize_run resize_conv r
    by simp
qed

subsection \<open>A call of a function whose parameters decode\<close>






subsection \<open>The reply of the dispatcher\<close>






subsection \<open>Several results of type string or error\<close>










subsection \<open>Grouped results in the catalog\<close>

text \<open>
  Claim C7, where the code departs from it. For \<open>func MinMax(a, b int) (lo, hi int)\<close>
  the catalog builder explodes the grouped parameters into one entry per name, \<open>a\<close> and
  \<open>b\<close>, but records a single result entry, named \<open>lo\<close>, for the two declared results
  \<open>lo\<close> and \<open>hi\<close>: the result loop takes \<open>result.Names[0]\<close> of each field and does
  not go through the names as the parameter loop does.
\<close>

theorem grouped_results_not_exploded:
  "map (\<lambda>info. (map (\<lambda>p. Names (DstField p)) (Params info), map (\<lambda>r. Names (DstField r)) (Results info)))
       (extractFuncInfo exampleUpper [exampleMinMax] Map.empty) =
     [([[Some ''a''], [Some ''b'']], [[Some ''lo'']])]"
  by code_simp


subsection \<open>A missing argument\<close>

text \<open>
  A primitive parameter whose name has no entry in the table, every parameter before it
  decoding, in a dispatcher that the compiler accepts: the dispatcher returns the error
  that names the parameter, and has invoked nothing.
\<close>

lemma mapP_append:
  "mapP f (xs @ ys) = Inr zs \<Longrightarrow>
     \<exists>as bs. zs = as @ bs \<and> mapP f xs = Inr as \<and> mapP f ys = Inr bs"
proof (induction xs arbitrary: zs)
  case Nil
  then show ?case by simp
next
  case (Cons x xs)
  from Cons.prems obtain y rest where y: "f x = Inr y" and rest: "mapP f (xs @ ys) = Inr rest"
    and zs: "zs = y # rest"
    by (auto simp: bindP_def split: sum.splits)
  from Cons.IH [OF rest] obtain as bs where "rest = as @ bs" "mapP f xs = Inr as" "mapP f ys = Inr bs"
    by blast
  then show ?case using y zs by (intro exI [of _ "y # as"] exI [of _ bs]) (simp add: bindP_def)
qed

lemma Sprintf_missing:
  "Sprintf ''parameter %s is not in the received arguments'' [AString n] =
     ''parameter '' @ n @ '' is not in the received arguments''"
  by (simp add: Sprintf_def fmtExtra_def)

lemma missing_primitive_argument:
  assumes gen: "generateServerReceiver infos = Inr cases"
    and dec: "decode data = (name, args, VNil)"
    and first: "find (\<lambda>i. OriginalIdentifier i = name) infos = Some fnInfo"
    and accepted: "compiles cases"
    and split: "Params fnInfo = pre @ p # post"
    and earlier: "list_all2 (decodes env args) pre xs"
    and dist: "distinct (map (\<lambda>p. firstName (DstField p)) pre)"
    and prim: "\<not> IsStruct p"
    and named: "firstName (DstField p) = Inr n"
    and missing: "args n = None"
  shows "AgrowsReceive env decode impl cases data =
           (Returned [] (errorsNew (''parameter '' @ n @ '' is not in the received arguments'')), [])"
proof -
  from find_case [OF gen first] obtain body where body: "caseBodyOf fnInfo = Inr body"
    and found: "find (\<lambda>c. caseKey c = name) cases = Some \<lparr>caseKey = name, caseBody = body\<rparr>"
    by blast
  from caseBody_parts [OF body] obtain defs pss reply where
    parts: "body = defs @ concat pss @ reply"
    and pss: "mapP paramStmts (Params fnInfo) = Inr pss"
    and defs: "defs = [] \<or> (\<exists>ds. defs = [VarDefs ds])"
    by blast
  from mapP_append [OF pss [unfolded split]] obtain as bs where
    ab: "pss = as @ bs" and as: "mapP paramStmts pre = Inr as" and bs: "mapP paramStmts (p # post) = Inr bs"
    by blast
  from bs obtain ss more where ss: "paramStmts p = Inr ss" and bs': "bs = ss # more"
    by (auto simp: bindP_def split: sum.splits)
  obtain T where ss': "ss = [IfArgMissing (n @ ''ParamArg'') n, IfCastFails (n @ ''Param'') (n @ ''ParamArg'') T]"
    using ss named prim unfolding paramStmts_def
    by (auto simp: bindP_def Let_def split: sum.splits)
  obtain vs0 where s0: "execBlock env impl args body Map.empty [] =
      execBlock env impl args (concat pss @ reply) vs0 []"
    using defs parts by auto
  from params_decode [OF as earlier dist, of impl "concat bs @ reply" vs0 "[]"] obtain vs' where
    s1: "execBlock env impl args (concat as @ concat bs @ reply) vs0 [] =
         execBlock env impl args (concat bs @ reply) vs' []"
    by blast
  have s2: "execBlock env impl args (concat bs @ reply) vs' [] =
      (Returned [] (errorsNew (''parameter '' @ n @ '' is not in the received arguments'')), [])"
    unfolding bs' ss' using missing Sprintf_missing [of n] by simp
  show ?thesis
    using dec found s0 s1 s2 ab accepted by (simp add: AgrowsReceive_def)
qed

text \<open>
  Claim C2, where the code departs from it. Take \<open>func Scale(factor int, inp CalcInput) string\<close>,
  whose parameter \<open>inp\<close> is a struct. The case generated for it is
  \<open>var (...)\<close>, the lookup and the assertion of \<open>factor\<close>, then for \<open>inp\<close> only the three
  reflection statements: no statement reads \<open>args["inp"]\<close>. Called with a table that has
  \<open>factor\<close> and no \<open>inp\<close>, the dispatcher does not return the error that names \<open>inp\<close>:
  it reflects on the variable \<open>inpParamArg\<close>, which nothing has assigned, and
  \<open>FieldByName\<close> panics on the zero Value. The same happens when the table has the entry.
  For the primitive parameter \<open>factor\<close> the missing entry gives the error that names it.
\<close>

theorem struct_parameter_never_looked_up:
  "generateServerReceiver [exampleScale] =
     Inr [\<lparr>caseKey = ''Scale'',
           caseBody =
             [VarDefs [(''factorParam'', TyNamed ''int''), (''factorParamArg'', TyArgument),
                       (''inpParam'', TyNamed ''CalcInput''), (''inpParamArg'', TyArgument),
                       (''inpParamValue'', TyReflectValue), (''inpValue'', TyReflectValue),
                       (''ok'', TyBool)],
              IfArgMissing ''factorParamArg'' ''factor'',
              IfCastFails ''factorParam'' ''factorParamArg'' ''int'',
              AssignValueOfArg ''inpParamValue'' ''inpParamArg'',
              AssignElemOf ''inpValue'' ''inpParam'',
              ForFields ''inpValue'' ''inpParamValue'',
              DefineCall [''str0''] ''agrows_Scale'' [''factorParam'', ''inpParam''],
              ReturnId ''str0'']\<rparr>] \<and>
   AgrowsReceive exampleEnv exampleDecode exampleImpl exampleScaleCases (''Scale'', exampleFactorOnly) =
     (Panicked ''reflect: call of reflect.Value.FieldByName on zero Value'', []) \<and>
   AgrowsReceive exampleEnv exampleDecode exampleImpl exampleScaleCases (''Scale'', exampleFactorAndInp) =
     (Panicked ''reflect: call of reflect.Value.FieldByName on zero Value'', []) \<and>
   AgrowsReceive exampleEnv exampleDecode exampleImpl exampleScaleCases (''Scale'', Map.empty) =
     (Returned [] (errorsNew ''parameter factor is not in the received arguments''), [])"
  by code_simp

subsection \<open>The output and the clock\<close>

lemma filePrefixOf_text:
  "filePrefixOf t now1 now2 =
     (case t of SERVER \<Rightarrow> [] | CLIENT \<Rightarrow> ''//go:build js && wasm && client'' @ [CHR 0x0A]) @
     ''/*'' @ [CHR 0x0A, CHR 0x09] @ ''Code generated by agrows. DO NOT EDIT :)'' @
     [CHR 0x0A, CHR 0x09] @ ''This code was generated on '' @ formatDate now1 @ '' at '' @ formatClock now2 @
     [CHR 0x0A, CHR 0x09] @ ''Any changes made to this file will be lost'' @
     [CHR 0x0A, CHR 0x09] @ ''*/'' @ [CHR 0x0A, CHR 0x09]"
  by (simp add: filePrefixOf_def Sprintf_def fmtExtra_def)

lemma write_shape:
  "\<exists>w. \<forall>now1 now2. writeCombinedTreeAndGenerated lib tree gen t now1 now2 =
         (case w of Inl err \<Rightarrow> Inl err | Inr printed \<Rightarrow> formatSource lib (filePrefixOf t now1 now2 @ printed))"
proof (cases "Render lib gen")
  case (Inl err)
  then show ?thesis
    by (intro exI [of _ "Inl (Sprintf ''failed to render generated code: %v'' [AString err])"])
       (simp add: writeCombinedTreeAndGenerated_def)
next
  case render: (Inr src)
  show ?thesis
  proof (cases "ParseFile lib src")
    case (Inl err)
    then show ?thesis using render
      by (intro exI [of _ "Inl (Sprintf ''failed to parse rendered code: %v'' [AString err])"])
         (simp add: writeCombinedTreeAndGenerated_def)
  next
    case parsed: (Inr parsedFile)
    show ?thesis
    proof (cases "DecorateFile lib parsedFile")
      case (Inl err)
      then show ?thesis using render parsed
        by (intro exI [of _ "Inl (Sprintf ''failed to convert parsed file to dst.File: %v'' [AString err])"])
           (simp add: writeCombinedTreeAndGenerated_def)
    next
      case decorated: (Inr genDst)
      define combined where "combined =
        \<lparr>Name = (case t of SERVER \<Rightarrow> Name tree | CLIENT \<Rightarrow> ''main''),
         Decls = (case t of
                    SERVER \<Rightarrow> GenDecl IMPORT (importSpecs (Decls tree) @ importSpecs genDst)
                  | CLIENT \<Rightarrow> GenDecl IMPORT (importSpecs genDst)) #
                 filter (\<lambda>x. \<not> isImport x) (Decls tree @ genDst)\<rparr>"
      show ?thesis
      proof (cases "RestoreFile lib combined")
        case (Inl err)
        then show ?thesis using render parsed decorated
          by (intro exI [of _ "Inl (Sprintf ''failed to restore dst.File: %v'' [AString err])"])
             (simp add: writeCombinedTreeAndGenerated_def combined_def Let_def)
      next
        case restored: (Inr restoredFile)
        show ?thesis
        proof (cases "Fprint lib restoredFile")
          case (Inl err)
          then show ?thesis using render parsed decorated restored
            by (intro exI [of _ "Inl (Sprintf ''failed to write to buffer: %v'' [AString err])"])
               (simp add: writeCombinedTreeAndGenerated_def combined_def Let_def)
        next
          case (Inr printed)
          then show ?thesis using render parsed decorated restored
            by (intro exI [of _ "Inr printed"])
               (simp add: writeCombinedTreeAndGenerated_def combined_def Let_def)
        qed
      qed
    qed
  qed
qed

lemma main_shape:
  "\<exists>body. \<forall>now1 now2.
      main parse lib up mode input now1 now2 =
        (case body of
           Inl (Inl message) \<Rightarrow> Failed message
         | Inl (Inr p) \<Rightarrow> Panics p
         | Inr printed \<Rightarrow>
             (case formatSource lib (filePrefixOf mode now1 now2 @ printed) of
                Inl err \<Rightarrow> Failed (''Failed to save combined file: '' @ err)
              | Inr bytes \<Rightarrow> Written bytes))"
proof (cases "parse input")
  case (Inl err)
  then show ?thesis
    by (intro exI [of _ "Inl (Inl (Sprintf ''Failed to parse file: %v'' [AString err]))"])
       (simp add: main_def)
next
  case tree: (Inr tree)
  define modified where "modified =
    (case mode of
       SERVER \<Rightarrow> tree\<lparr>Decls := modifyOriginalFunctions up (Decls tree)\<rparr>
     | CLIENT \<Rightarrow> tree\<lparr>Decls := removeOriginalAndUnexportedFunctions (Decls tree)\<rparr>)"
  show ?thesis
  proof (cases "generateFile mode (extractFuncInfo up (Decls tree) (extractTypeMap tree))")
    case (Inl p)
    then show ?thesis using tree
      by (intro exI [of _ "Inl (Inr p)"]) (simp add: main_def Let_def)
  next
    case gen: (Inr newFile)
    from write_shape [of lib modified newFile mode] obtain w where
      w: "\<And>now1 now2. writeCombinedTreeAndGenerated lib modified newFile mode now1 now2 =
         (case w of Inl err \<Rightarrow> Inl err | Inr printed \<Rightarrow> formatSource lib (filePrefixOf mode now1 now2 @ printed))"
      by blast
    have f: "Sprintf ''Failed to save combined file: %v'' [AString err] = ''Failed to save combined file: '' @ err"
      for err by (simp add: Sprintf_def fmtExtra_def)
    show ?thesis
    proof (cases w)
      case (Inl err)
      then show ?thesis using tree gen w
        by (intro exI [of _ "Inl (Inl (''Failed to save combined file: '' @ err))"])
           (simp add: main_def Let_def modified_def [symmetric] f)
    next
      case (Inr printed)
      then show ?thesis using tree gen w
        by (intro exI [of _ "Inr printed"])
           (simp add: main_def Let_def modified_def [symmetric] f split: sum.splits)
    qed
  qed
qed

text \<open>
  Claim C8, as amended. A run on a source in a mode reads the clock twice, and the two
  readings enter the output through the header alone. There is a part of the run that
  does not depend on the clock: either the run ends there, with a failure (the input
  does not parse, or a library of the merge fails) or with a panic of the generator, and
  nothing is written; or it gives the printed combined file. In the second case the text handed to \<open>format.Source\<close> is, for every pair of
  readings, the target tag (in client mode), the header comment, which states the date of
  the first reading and the time of day of the second, and the printed file; the bytes
  written are what \<open>format.Source\<close> makes of it. So two runs on the same source and mode
  whose readings agree in the date and in the time of day to the second end alike, with
  the same bytes.
\<close>

theorem output_determined_by_source_mode_and_clock:
  "(\<exists>body. \<forall>now1 now2.
      main parse lib up mode input now1 now2 =
        (case body of
           Inl (Inl message) \<Rightarrow> Failed message
         | Inl (Inr p) \<Rightarrow> Panics p
         | Inr printed \<Rightarrow>
             (case formatSource lib
                     ((case mode of SERVER \<Rightarrow> [] | CLIENT \<Rightarrow> ''//go:build js && wasm && client'' @ [CHR 0x0A]) @
                      ''/*'' @ [CHR 0x0A, CHR 0x09] @ ''Code generated by agrows. DO NOT EDIT :)'' @
                      [CHR 0x0A, CHR 0x09] @ ''This code was generated on '' @ formatDate now1 @
                      '' at '' @ formatClock now2 @
                      [CHR 0x0A, CHR 0x09] @ ''Any changes made to this file will be lost'' @
                      [CHR 0x0A, CHR 0x09] @ ''*/'' @ [CHR 0x0A, CHR 0x09] @ printed) of
                Inl err \<Rightarrow> Failed (''Failed to save combined file: '' @ err)
              | Inr bytes \<Rightarrow> Written bytes))) \<and>
   (\<forall>a1 a2 b1 b2. formatDate a1 = formatDate b1 \<and> formatClock a2 = formatClock b2 \<longrightarrow>
      main parse lib up mode input a1 a2 = main parse lib up mode input b1 b2)"
proof
  from main_shape [of parse lib up mode input] obtain body where
    body: "\<And>now1 now2. main parse lib up mode input now1 now2 =
        (case body of
           Inl (Inl message) \<Rightarrow> Failed message
         | Inl (Inr p) \<Rightarrow> Panics p
         | Inr printed \<Rightarrow>
             (case formatSource lib (filePrefixOf mode now1 now2 @ printed) of
                Inl err \<Rightarrow> Failed (''Failed to save combined file: '' @ err)
              | Inr bytes \<Rightarrow> Written bytes))"
    by blast
  show "\<exists>body. \<forall>now1 now2.
      main parse lib up mode input now1 now2 =
        (case body of
           Inl (Inl message) \<Rightarrow> Failed message
         | Inl (Inr p) \<Rightarrow> Panics p
         | Inr printed \<Rightarrow>
             (case formatSource lib
                     ((case mode of SERVER \<Rightarrow> [] | CLIENT \<Rightarrow> ''//go:build js && wasm && client'' @ [CHR 0x0A]) @
                      ''/*'' @ [CHR 0x0A, CHR 0x09] @ ''Code generated by agrows. DO NOT EDIT :)'' @
                      [CHR 0x0A, CHR 0x09] @ ''This code was generated on '' @ formatDate now1 @
                      '' at '' @ formatClock now2 @
                      [CHR 0x0A, CHR 0x09] @ ''Any changes made to this file will be lost'' @
                      [CHR 0x0A, CHR 0x09] @ ''*/'' @ [CHR 0x0A, CHR 0x09] @ printed) of
                Inl err \<Rightarrow> Failed (''Failed to save combined file: '' @ err)
              | Inr bytes \<Rightarrow> Written bytes))"
    by (rule exI [of _ body]) (simp add: body filePrefixOf_text split: sum.splits)
  show "\<forall>a1 a2 b1 b2. formatDate a1 = formatDate b1 \<and> formatClock a2 = formatClock b2 \<longrightarrow>
      main parse lib up mode input a1 a2 = main parse lib up mode input b1 b2"
    by (simp add: body filePrefixOf_text split: sum.splits)
qed

lemma example_run:
  "main exampleParse exampleLib exampleUpper SERVER exampleInput exampleMorning exampleMorning =
     Written (''/*'' @ [CHR 0x0A, CHR 0x09] @ ''Code generated by agrows. DO NOT EDIT :)'' @
              [CHR 0x0A, CHR 0x09] @ ''This code was generated on 2024-07-01 at 09:30:00'' @
              [CHR 0x0A, CHR 0x09] @ ''Any changes made to this file will be lost'' @
              [CHR 0x0A, CHR 0x09] @ ''*/'' @ [CHR 0x0A, CHR 0x09] @ ''package functions'' @ [CHR 0x0A])"
  by code_simp

theorem output_determined_by_source_mode_and_clock_witness:
  "formatDate exampleMorning = formatDate exampleMorningLater \<and>
   formatClock exampleMorning = formatClock exampleMorningLater \<and>
   exampleMorning \<noteq> exampleMorningLater \<and>
   main exampleParse exampleLib exampleUpper SERVER exampleInput exampleMorningLater exampleMorningLater =
     Written (''/*'' @ [CHR 0x0A, CHR 0x09] @ ''Code generated by agrows. DO NOT EDIT :)'' @
              [CHR 0x0A, CHR 0x09] @ ''This code was generated on 2024-07-01 at 09:30:00'' @
              [CHR 0x0A, CHR 0x09] @ ''Any changes made to this file will be lost'' @
              [CHR 0x0A, CHR 0x09] @ ''*/'' @ [CHR 0x0A, CHR 0x09] @ ''package functions'' @ [CHR 0x0A])"
proof -
  have d: "formatDate exampleMorning = formatDate exampleMorningLater"
    by (simp add: formatDate_def exampleMorning_def exampleMorningLater_def)
  have c: "formatClock exampleMorning = formatClock exampleMorningLater"
    by (simp add: formatClock_def exampleMorning_def exampleMorningLater_def)
  have n: "exampleMorning \<noteq> exampleMorningLater"
    by (simp add: exampleMorning_def exampleMorningLater_def)
  have "main exampleParse exampleLib exampleUpper SERVER exampleInput exampleMorning exampleMorning =
        main exampleParse exampleLib exampleUpper SERVER exampleInput exampleMorningLater exampleMorningLater"
    using output_determined_by_source_mode_and_clock [of exampleParse exampleLib exampleUpper SERVER exampleInput,
        THEN conjunct2, rule_format, of exampleMorning exampleMorningLater exampleMorning exampleMorningLater]
      d c by simp
  then show ?thesis using d c n example_run by simp
qed

text \<open>
  The claim as it stands fails: the same source in the same mode, generated in the morning
  and in the evening of one day, gives two different outputs.
\<close>

theorem output_changes_with_the_clock_counterexample:
  "main exampleParse exampleLib exampleUpper SERVER exampleInput exampleMorning exampleMorning \<noteq>
   main exampleParse exampleLib exampleUpper SERVER exampleInput exampleEvening exampleEvening"
  by code_simp

end
